theory Spec2Isabelle
  imports Complex_Main
begin

section \<open>JavaScript numbers and array access\<close>

text \<open>
  The TypeScript type \<open>number\<close> is an IEEE double. Every finite double is a rational, so a
  finite value is modelled by the rational it denotes; the two infinities and NaN are
  separate constructors. The only arithmetic the modelled code performs is \<open>x - 3\<close>, and the
  only tests are comparisons with the integers 35..45 and array positions 0..10, where the
  exact rational result and the rounded double result agree. \<open>+0\<close> and \<open>-0\<close> are one
  value here; no modelled operation distinguishes them.
\<close>

datatype number = Fin rat | PosInf | NegInf | NaN

text \<open>The relational operators \<open><\<close> and \<open>>\<close> on numbers: false as soon as one side is NaN.\<close>

fun num_lt :: "number \<Rightarrow> number \<Rightarrow> bool" where
  "num_lt NaN _ = False"
| "num_lt _ NaN = False"
| "num_lt (Fin a) (Fin b) = (a < b)"
| "num_lt (Fin _) PosInf = True"
| "num_lt (Fin _) NegInf = False"
| "num_lt PosInf _ = False"
| "num_lt NegInf NegInf = False"
| "num_lt NegInf _ = True"

definition num_gt :: "number \<Rightarrow> number \<Rightarrow> bool" where
  "num_gt a b = num_lt b a"

text \<open>
  A value that may be \<open>undefined\<close> or \<open>null\<close> is a \<open>number option\<close>. In a comparison
  \<open>undefined\<close> converts to NaN, so \<open>undefined > x\<close> is false.
\<close>

definition opt_gt :: "number option \<Rightarrow> number option \<Rightarrow> bool" where
  "opt_gt a b = (case (a, b) of (Some x, Some y) \<Rightarrow> num_gt x y | _ \<Rightarrow> False)"

text \<open>Strict equality \<open>===\<close> on numbers (NaN differs from itself), and with a missing value.\<close>

fun strict_eq :: "number \<Rightarrow> number \<Rightarrow> bool" where
  "strict_eq NaN _ = False"
| "strict_eq _ NaN = False"
| "strict_eq a b = (a = b)"

definition opt_strict_eq :: "number option \<Rightarrow> number option \<Rightarrow> bool" where
  "opt_strict_eq a b = (case (a, b) of (Some x, Some y) \<Rightarrow> strict_eq x y | _ \<Rightarrow> False)"

text \<open>Truthiness of a possibly missing number: \<open>undefined\<close>, \<open>null\<close>, 0 and NaN are falsy.\<close>

fun truthy :: "number option \<Rightarrow> bool" where
  "truthy None = False"
| "truthy (Some NaN) = False"
| "truthy (Some (Fin r)) = (r \<noteq> 0)"
| "truthy (Some _) = True"

text \<open>\<open>Array.prototype.includes\<close> compares with SameValueZero, under which NaN equals NaN.\<close>

definition array_includes :: "number list \<Rightarrow> number \<Rightarrow> bool" where
  "array_includes xs v = list_ex (\<lambda>x. x = v) xs"

text \<open>\<open>Array.prototype.find\<close> with a callback that receives the element and its index.\<close>

fun find_from :: "('a \<Rightarrow> nat \<Rightarrow> bool) \<Rightarrow> nat \<Rightarrow> 'a list \<Rightarrow> 'a option" where
  "find_from p i [] = None"
| "find_from p i (x # xs) = (if p x i then Some x else find_from p (Suc i) xs)"

definition array_find :: "('a \<Rightarrow> nat \<Rightarrow> bool) \<Rightarrow> 'a list \<Rightarrow> 'a option" where
  "array_find p xs = find_from p 0 xs"

text \<open>\<open>xs[i]\<close> for a position \<open>i\<close>: \<open>undefined\<close> past the end.\<close>

definition nth_opt :: "'a list \<Rightarrow> nat \<Rightarrow> 'a option" where
  "nth_opt xs i = (if i < length xs then Some (xs ! i) else None)"

text \<open>
  \<open>xs[k]\<close> for a number \<open>k\<close>: the key is an array position only when \<open>k\<close> is a
  non-negative integer; a fraction, a negative number, an infinity or NaN names a property
  the array does not have.
\<close>

definition array_get :: "'a list \<Rightarrow> number \<Rightarrow> 'a option" where
  "array_get xs k =
     (case k of
        Fin r \<Rightarrow> if r = of_int \<lfloor>r\<rfloor> \<and> 0 \<le> r then nth_opt xs (nat \<lfloor>r\<rfloor>) else None
      | _ \<Rightarrow> None)"

text \<open>Subtraction of numbers.\<close>

fun num_sub :: "number \<Rightarrow> number \<Rightarrow> number" where
  "num_sub NaN _ = NaN"
| "num_sub _ NaN = NaN"
| "num_sub (Fin a) (Fin b) = Fin (a - b)"
| "num_sub PosInf PosInf = NaN"
| "num_sub NegInf NegInf = NaN"
| "num_sub PosInf _ = PosInf"
| "num_sub NegInf _ = NegInf"
| "num_sub (Fin _) PosInf = NegInf"
| "num_sub (Fin _) NegInf = PosInf"

section \<open>utils: the temperature scale\<close>

definition AVAILABLE_TEMPERATURES :: "number list" where
  "AVAILABLE_TEMPERATURES =
     [Fin 35, Fin 36, Fin 37, Fin 38, Fin 39, Fin 40, Fin 41, Fin 42, Fin 43, Fin 44, Fin 45]"

definition RINNAI_STATE_TEMPERATURES :: "number list" where
  "RINNAI_STATE_TEMPERATURES =
     [Fin 35, Fin 36, Fin 37, Fin 38, Fin 39, Fin 40, Fin 41, Fin 42, Fin 43, Fin 44, Fin 45]"

definition parseTargetTemperatureToRange :: "number \<Rightarrow> number option" where
  "parseTargetTemperatureToRange temperature =
     (let newTargetTemperature =
            (if array_includes AVAILABLE_TEMPERATURES temperature then Some temperature else None);
          newTargetTemperature =
            (if \<not> truthy newTargetTemperature
             then array_find
                    (\<lambda>_ index.
                       let nextAvailable = nth_opt AVAILABLE_TEMPERATURES (index + 1)
                       in opt_gt nextAvailable (Some temperature))
                    AVAILABLE_TEMPERATURES
             else newTargetTemperature)
      in if \<not> truthy newTargetTemperature
         then
           (let lowestTemp = AVAILABLE_TEMPERATURES ! 0;
                highestTemp = AVAILABLE_TEMPERATURES ! (length AVAILABLE_TEMPERATURES - 1);
                newTargetTemperature =
                  (if num_lt temperature lowestTemp then Some lowestTemp
                   else newTargetTemperature)
            in if num_gt temperature highestTemp then Some highestTemp
               else newTargetTemperature)
         else newTargetTemperature)"

definition parseRinnaiTemperature :: "number \<Rightarrow> number option" where
  "parseRinnaiTemperature rinnaiTemp =
     (let index = num_sub rinnaiTemp (Fin 3)
      in array_get RINNAI_STATE_TEMPERATURES index)"

section \<open>Strings: \<open>split\<close> and \<open>parseInt\<close>\<close>

text \<open>
  A string is a list of characters; a \<open>char\<close> stands for a code unit below 256.
  \<open>s.split(',')\<close> cuts at every comma and always returns at least one field.
\<close>

fun split :: "char \<Rightarrow> string \<Rightarrow> string list" where
  "split sep [] = [[]]"
| "split sep (c # cs) =
     (if c = sep then [] # split sep cs
      else (case split sep cs of
              [] \<Rightarrow> [[c]]
            | f # fs \<Rightarrow> (c # f) # fs))"

text \<open>The line a list of fields makes: the fields with a separator between neighbours.\<close>

fun join :: "char \<Rightarrow> string list \<Rightarrow> string" where
  "join sep [] = []"
| "join sep [f] = f"
| "join sep (f # g # fs) = f @ sep # join sep (g # fs)"

text \<open>The white space that \<open>parseInt\<close> skips, as far as it lies below 256.\<close>

definition is_space :: "char \<Rightarrow> bool" where
  "is_space c \<longleftrightarrow>
     c \<in> set [CHR 0x09, CHR 0x0A, CHR 0x0B, CHR 0x0C, CHR 0x0D, CHR 0x20, CHR 0xA0]"

definition is_digit :: "char \<Rightarrow> bool" where
  "is_digit c \<longleftrightarrow> c \<in> set ''0123456789''"

text \<open>The value of a digit is its position in the digit alphabet.\<close>

fun position :: "'a \<Rightarrow> 'a list \<Rightarrow> nat" where
  "position x [] = 0"
| "position x (y # ys) = (if x = y then 0 else Suc (position x ys))"

definition digit_val :: "char \<Rightarrow> int" where
  "digit_val c = int (position c ''0123456789'')"

definition digits_val :: "string \<Rightarrow> int" where
  "digits_val ds = foldl (\<lambda>acc c. 10 * acc + digit_val c) 0 ds"

text \<open>
  \<open>parseInt(x, 10)\<close>: skip leading white space, take an optional sign, then the longest
  run of decimal digits; whatever follows is ignored. Without a digit the result is NaN.
  A missing argument (\<open>undefined\<close>) is first turned into the text \<open>undefined\<close>, which
  has no digit. The value of a digit run beyond \<open>2^53\<close> is rounded to a double by the
  program and kept exact here; neither is an index of the temperature table.
\<close>

definition parseInt :: "string option \<Rightarrow> number" where
  "parseInt x =
     (let inputString = (case x of None \<Rightarrow> ''undefined'' | Some s \<Rightarrow> s);
          S = dropWhile is_space inputString;
          sign = (if S \<noteq> [] \<and> hd S = CHR ''-'' then - 1 else 1 :: int);
          S = (if S \<noteq> [] \<and> (hd S = CHR ''+'' \<or> hd S = CHR ''-'') then tl S else S);
          Z = takeWhile is_digit S
      in if Z = [] then NaN else Fin (of_int (sign * digits_val Z)))"

section \<open>rinnaiApi: state, decoder, cache and controller\<close>

record RinnaiState =
  targetTemperature :: "number option"
  isHeating :: bool
  isPoweredOn :: bool

text \<open>\<open>params[i] === '1'\<close> and \<open>params[i] !== '11'\<close>: a missing field equals no string.\<close>

definition field_eq :: "string option \<Rightarrow> string \<Rightarrow> bool" where
  "field_eq f s = (case f of None \<Rightarrow> False | Some t \<Rightarrow> t = s)"

definition parseStateParams :: "string \<Rightarrow> RinnaiState" where
  "parseStateParams stringifiedParams =
     (let params = split CHR '','' stringifiedParams;
          temperature = parseInt (nth_opt params 7);
          targetTemperature = parseRinnaiTemperature temperature;
          isHeating = field_eq (nth_opt params 2) ''1'';
          isPoweredOn = (\<not> field_eq (nth_opt params 0) ''11'')
      in \<lparr>targetTemperature = targetTemperature,
          isHeating = isHeating,
          isPoweredOn = isPoweredOn\<rparr>)"

text \<open>
  The errors a caller can observe. The program raises plain \<open>Error\<close> objects told apart by
  their message; \<open>TransportError\<close> is the rejection of a request by the HTTP client.
\<close>

datatype error =
    TransportError
  | InvalidTemperatureError
  | StateUnavailableError
  | MaxRetriesExceededError

text \<open>
  The device is outside the program: it is a parameter, a function from the requested
  path and the device's own state to a response body (or no response, when the request
  fails) and the device's next state. The world a call runs in holds the device, the
  module variable \<open>lastState\<close>, and the list of requests issued so far.
\<close>

type_synonym 'd api = "string \<Rightarrow> 'd \<Rightarrow> string option \<times> 'd"

record 'd world =
  device :: 'd
  lastState :: "RinnaiState option"
  requests :: "string list"

definition rinnaiApi :: "'d api \<Rightarrow> string \<Rightarrow> 'd world \<Rightarrow> string option \<times> 'd world" where
  "rinnaiApi api url w =
     (case api url (device w) of
        (response, d) \<Rightarrow> (response, w\<lparr>device := d, requests := requests w @ [url]\<rparr>))"

definition getState :: "'d api \<Rightarrow> bool \<Rightarrow> 'd world \<Rightarrow> (error + RinnaiState) \<times> 'd world" where
  "getState api ignoreCache w =
     (if lastState w \<noteq> None \<and> \<not> ignoreCache then (Inr (the (lastState w)), w)
      else (case rinnaiApi api ''tela_'' w of
              (None, w1) \<Rightarrow> (Inl TransportError, w1)
            | (Some data, w1) \<Rightarrow>
                (let s = parseStateParams data
                 in (Inr s, w1\<lparr>lastState := Some s\<rparr>))))"

text \<open>
  One pass through the \<open>try\<close> block of \<open>setTargetTemperature\<close>. It ends in a \<open>return\<close> of
  \<open>lastState\<close>, in the tail call \<open>setTargetTemperature(target, 0, currentTargetTemp)\<close>, or
  in an exception, which the \<open>catch\<close> clause of the same call receives.
\<close>

datatype outcome =
    Return "RinnaiState option"
  | Continue "number option"
  | Threw error

definition try_block :: "'d api \<Rightarrow> number \<Rightarrow> number option \<Rightarrow> 'd world \<Rightarrow> outcome \<times> 'd world" where
  "try_block api target lastTargetTemp w =
     (let targetTemperatureInRange = parseTargetTemperatureToRange target
      in if \<not> truthy targetTemperatureInRange then (Threw InvalidTemperatureError, w)
         else
           (case (if \<not> truthy lastTargetTemp
                  then (case getState api True w of
                          (Inl e, w1) \<Rightarrow> (Inl e, w1)
                        | (Inr s, w1) \<Rightarrow> (Inr (targetTemperature s), w1))
                  else (Inr lastTargetTemp, w)) of
              (Inl e, w1) \<Rightarrow> (Threw e, w1)
            | (Inr currentTargetTemp, w1) \<Rightarrow>
                if \<not> truthy currentTargetTemp then (Threw StateUnavailableError, w1)
                else if opt_strict_eq targetTemperatureInRange currentTargetTemp
                then (Return (lastState w1), w1)
                else
                  (let operation =
                         (if opt_gt currentTargetTemp targetTemperatureInRange
                          then ''dec'' else ''inc'')
                   in case rinnaiApi api operation w1 of
                        (None, w2) \<Rightarrow> (Threw TransportError, w2)
                      | (Some data, w2) \<Rightarrow>
                          (let parsedParams = parseStateParams data;
                               w3 = w2\<lparr>lastState := Some parsedParams\<rparr>;
                               currentTargetTemp = targetTemperature parsedParams
                           in if opt_strict_eq targetTemperatureInRange currentTargetTemp
                              then (Return (lastState w3), w3)
                              else (Continue currentTargetTemp, w3)))))"

text \<open>
  The controller. A step that succeeds without reaching the target calls the controller
  again with the retry counter at 0; nothing bounds the number of such calls, so the
  function is partial: \<open>None\<close> stands for a call that never returns. The tail calls are
  returned without \<open>await\<close>, so an error of a later call is not caught again here.
\<close>

partial_function (option) setTargetTemperature ::
  "'d api \<Rightarrow> number \<Rightarrow> nat \<Rightarrow> number option \<Rightarrow> 'd world
     \<Rightarrow> ((error + RinnaiState option) \<times> 'd world) option" where
  "setTargetTemperature api target retries lastTargetTemp w =
     (case try_block api target lastTargetTemp w of
        (Return s, w1) \<Rightarrow> Some (Inr s, w1)
      | (Continue currentTargetTemp, w1) \<Rightarrow>
          setTargetTemperature api target 0 currentTargetTemp w1
      | (Threw e, w1) \<Rightarrow>
          if retries < 5 then setTargetTemperature api target (retries + 1) lastTargetTemp w1
          else Some (Inl MaxRetriesExceededError, w1))"

text \<open>\<open>setPowerState\<close> returns the literal \<open>true\<close> when nothing is to do, else the new state.\<close>

datatype power_result = ReturnedTrue | ReturnedState RinnaiState

definition setPowerState :: "'d api \<Rightarrow> bool \<Rightarrow> 'd world \<Rightarrow> (error + power_result) \<times> 'd world" where
  "setPowerState api turnOn w =
     (case getState api False w of
        (Inl e, w1) \<Rightarrow> (Inl e, w1)
      | (Inr s, w1) \<Rightarrow>
          if isPoweredOn s = turnOn then (Inr ReturnedTrue, w1)
          else (case rinnaiApi api ''/lig'' w1 of
                  (None, w2) \<Rightarrow> (Inl TransportError, w2)
                | (Some data, w2) \<Rightarrow>
                    (let state = parseStateParams data
                     in (Inr (ReturnedState state), w2\<lparr>lastState := Some state\<rparr>))))"

section \<open>Devices to run the program against\<close>

text \<open>
  A device that answers from a script, whatever the path requested: each request takes the
  next entry, \<open>None\<close> being a request that fails; past the end of the script every
  request fails.
\<close>

fun scripted :: "string \<Rightarrow> string option list \<Rightarrow> string option \<times> string option list" where
  "scripted url [] = (None, [])"
| "scripted url (r # rs) = (r, rs)"

text \<open>The next \<open>n\<close> requests for a path all fail; and the device after \<open>n\<close> such requests.\<close>

fun fails :: "'d api \<Rightarrow> string \<Rightarrow> nat \<Rightarrow> 'd \<Rightarrow> bool" where
  "fails api url 0 d = True"
| "fails api url (Suc n) d =
     (case api url d of (None, d') \<Rightarrow> fails api url n d' | (Some _, _) \<Rightarrow> False)"

fun served :: "'d api \<Rightarrow> string \<Rightarrow> nat \<Rightarrow> 'd \<Rightarrow> 'd" where
  "served api url 0 d = d"
| "served api url (Suc n) d = served api url n (snd (api url d))"

text \<open>
  Each of the next \<open>n\<close> forced refreshes is answered, and each time the decoded state
  has no target temperature; and the world after \<open>n\<close> forced refreshes.
\<close>

fun unknown_after_refresh :: "'d api \<Rightarrow> nat \<Rightarrow> 'd world \<Rightarrow> bool" where
  "unknown_after_refresh api 0 w = True"
| "unknown_after_refresh api (Suc n) w =
     (case getState api True w of
        (Inr s, w1) \<Rightarrow> targetTemperature s = None \<and> unknown_after_refresh api n w1
      | (Inl e, w1) \<Rightarrow> False)"

fun refreshed :: "'d api \<Rightarrow> nat \<Rightarrow> 'd world \<Rightarrow> 'd world" where
  "refreshed api 0 w = w"
| "refreshed api (Suc n) w = refreshed api n (snd (getState api True w))"

text \<open>
  A device on which every step command succeeds and moves the reported target temperature
  by exactly one supported unit in the commanded direction. \<open>temp\<close> reads the target
  temperature (in degrees Celsius) off the device state; a state read reports it and
  leaves it alone, \<open>inc\<close> raises it by one below 45, \<open>dec\<close> lowers it by one above 35.
\<close>

definition unit_step_device :: "'d api \<Rightarrow> ('d \<Rightarrow> int) \<Rightarrow> bool" where
  "unit_step_device api temp \<longleftrightarrow>
     (\<forall>d. \<exists>line d'. api ''tela_'' d = (Some line, d') \<and> temp d' = temp d \<and>
        targetTemperature (parseStateParams line) = Some (Fin (of_int (temp d)))) \<and>
     (\<forall>d. temp d < 45 \<longrightarrow>
        (\<exists>line d'. api ''inc'' d = (Some line, d') \<and> temp d' = temp d + 1 \<and>
           targetTemperature (parseStateParams line) = Some (Fin (of_int (temp d + 1))))) \<and>
     (\<forall>d. 35 < temp d \<longrightarrow>
        (\<exists>line d'. api ''dec'' d = (Some line, d') \<and> temp d' = temp d - 1 \<and>
           targetTemperature (parseStateParams line) = Some (Fin (of_int (temp d - 1)))))"

text \<open>
  One such device: its state is a temperature, kept within 35..45; every answer is a
  state line of a heater that is on and heating, with the raw index of the temperature
  (the temperature less 32, in decimal) in field 7.
\<close>

definition heater_temp :: "int \<Rightarrow> int" where
  "heater_temp d = max 35 (min 45 d)"

definition index_text :: "nat \<Rightarrow> string" where
  "index_text i =
     (if i < 10 then [''0123456789'' ! i]
      else [''0123456789'' ! (i div 10), ''0123456789'' ! (i mod 10)])"

definition heater_line :: "int \<Rightarrow> string" where
  "heater_line t = ''10,0,1,0,0,0,0,'' @ index_text (nat (t - 32)) @ '',0''"

definition heater :: "string \<Rightarrow> int \<Rightarrow> string option \<times> int" where
  "heater url d =
     (let t = heater_temp d;
          t' = (if url = ''inc'' then heater_temp (t + 1)
                else if url = ''dec'' then heater_temp (t - 1)
                else t)
      in (Some (heater_line t'), t'))"

text \<open>
  A failed attempt of the controller, told from the device. With \<open>des\<close> the desired
  temperature and \<open>lt\<close> the last known target temperature the call carries, an attempt
  fails when the forced refresh it needs is not answered, or is answered without a target
  temperature, or when the step request it issues is not answered. The result is the
  world the failed attempt leaves behind, and \<open>None\<close> when the attempt does not fail.
  \<open>failures\<close> is the world after \<open>n\<close> failed attempts in a row.
\<close>

definition failed_step :: "'d api \<Rightarrow> number \<Rightarrow> number option \<Rightarrow> 'd world \<Rightarrow> 'd world option" where
  "failed_step api des cur w =
     (if opt_strict_eq (Some des) cur then None
      else (let operation = (if opt_gt cur (Some des) then ''dec'' else ''inc'')
            in case api operation (device w) of
                 (None, d) \<Rightarrow> Some (w\<lparr>device := d, requests := requests w @ [operation]\<rparr>)
               | (Some data, d) \<Rightarrow> None))"

definition failed_attempt :: "'d api \<Rightarrow> number \<Rightarrow> number option \<Rightarrow> 'd world \<Rightarrow> 'd world option" where
  "failed_attempt api des lt w =
     (if truthy lt then failed_step api des lt w
      else (case api ''tela_'' (device w) of
              (None, d) \<Rightarrow> Some (w\<lparr>device := d, requests := requests w @ [''tela_'']\<rparr>)
            | (Some data, d) \<Rightarrow>
                (let s = parseStateParams data;
                     w1 = w\<lparr>device := d, requests := requests w @ [''tela_''],
                            lastState := Some s\<rparr>
                 in if \<not> truthy (targetTemperature s) then Some w1
                    else failed_step api des (targetTemperature s) w1)))"

fun failures :: "'d api \<Rightarrow> number \<Rightarrow> number option \<Rightarrow> nat \<Rightarrow> 'd world \<Rightarrow> 'd world option" where
  "failures api des lt 0 w = Some w"
| "failures api des lt (Suc n) w =
     (case failed_attempt api des lt w of
        None \<Rightarrow> None
      | Some w1 \<Rightarrow> failures api des lt n w1)"

section \<open>The temperature scale mapper\<close>

lemmas mapper_defs = parseTargetTemperatureToRange_def AVAILABLE_TEMPERATURES_def
  array_includes_def array_find_def nth_opt_def opt_gt_def num_gt_def

lemma parseTargetTemperatureToRange_Fin:
  "parseTargetTemperatureToRange (Fin r) =
     Some (Fin (if r < 36 then 35 else if r < 37 then 36 else if r < 38 then 37
                else if r < 39 then 38 else if r < 40 then 39 else if r < 41 then 40
                else if r < 42 then 41 else if r < 43 then 42 else if r < 44 then 43
                else if r < 45 then 44 else 45))"
  by (simp add: mapper_defs)

lemma parseTargetTemperatureToRange_PosInf:
  "parseTargetTemperatureToRange PosInf = Some (Fin 45)"
  by (simp add: mapper_defs)

lemma parseTargetTemperatureToRange_NegInf:
  "parseTargetTemperatureToRange NegInf = Some (Fin 35)"
  by (simp add: mapper_defs)

lemma parseTargetTemperatureToRange_NaN: "parseTargetTemperatureToRange NaN = None"
  by (simp add: mapper_defs)

text \<open>
  C4. The mapper returns a supported value unchanged; a request strictly between two
  neighbouring supported values gives the lower of the two; a request below 35 gives 35
  and a request above 45 gives 45.
\<close>

theorem parseTargetTemperatureToRange_cases:
  "(v \<in> set AVAILABLE_TEMPERATURES \<longrightarrow> parseTargetTemperatureToRange v = Some v) \<and>
   (\<forall>i. i + 1 < length AVAILABLE_TEMPERATURES \<and>
        num_lt (AVAILABLE_TEMPERATURES ! i) t \<and> num_lt t (AVAILABLE_TEMPERATURES ! (i + 1)) \<longrightarrow>
        parseTargetTemperatureToRange t = Some (AVAILABLE_TEMPERATURES ! i)) \<and>
   (num_lt lo (Fin 35) \<longrightarrow> parseTargetTemperatureToRange lo = Some (Fin 35)) \<and>
   (num_gt hi (Fin 45) \<longrightarrow> parseTargetTemperatureToRange hi = Some (Fin 45))"
proof (intro conjI impI allI)
  assume "v \<in> set AVAILABLE_TEMPERATURES"
  then show "parseTargetTemperatureToRange v = Some v"
    by (auto simp: AVAILABLE_TEMPERATURES_def parseTargetTemperatureToRange_Fin)
next
  fix i
  assume a: "i + 1 < length AVAILABLE_TEMPERATURES \<and>
        num_lt (AVAILABLE_TEMPERATURES ! i) t \<and> num_lt t (AVAILABLE_TEMPERATURES ! (i + 1))"
  then obtain r where t: "t = Fin r"
    by (cases t) (auto simp: AVAILABLE_TEMPERATURES_def nth_Cons split: nat.splits)
  from a have "i < 10" by (simp add: AVAILABLE_TEMPERATURES_def)
  then have "i \<in> {0,1,2,3,4,5,6,7,8,9}" by auto
  with a t show "parseTargetTemperatureToRange t = Some (AVAILABLE_TEMPERATURES ! i)"
    by (auto simp: AVAILABLE_TEMPERATURES_def parseTargetTemperatureToRange_Fin)
next
  assume "num_lt lo (Fin 35)"
  then show "parseTargetTemperatureToRange lo = Some (Fin 35)"
    by (cases lo)
      (auto simp: parseTargetTemperatureToRange_Fin parseTargetTemperatureToRange_NegInf)
next
  assume "num_gt hi (Fin 45)"
  then show "parseTargetTemperatureToRange hi = Some (Fin 45)"
    by (cases hi)
      (auto simp: num_gt_def parseTargetTemperatureToRange_Fin
        parseTargetTemperatureToRange_PosInf)
qed

theorem parseTargetTemperatureToRange_cases_witness:
  "parseTargetTemperatureToRange (Fin 40) = Some (Fin 40) \<and>
   parseTargetTemperatureToRange (Fin (89 / 2)) = Some (Fin 44) \<and>
   parseTargetTemperatureToRange (Fin 20) = Some (Fin 35) \<and>
   parseTargetTemperatureToRange PosInf = Some (Fin 45)"
proof -
  note c = parseTargetTemperatureToRange_cases
    [of "Fin 40" "Fin (89 / 2)" "Fin 20" PosInf]
  have 1: "Fin 40 \<in> set AVAILABLE_TEMPERATURES"
    by (simp add: AVAILABLE_TEMPERATURES_def)
  have 2: "9 + 1 < length AVAILABLE_TEMPERATURES \<and>
      num_lt (AVAILABLE_TEMPERATURES ! 9) (Fin (89 / 2)) \<and>
      num_lt (Fin (89 / 2)) (AVAILABLE_TEMPERATURES ! (9 + 1))"
    by (simp add: AVAILABLE_TEMPERATURES_def)
  have 3: "AVAILABLE_TEMPERATURES ! 9 = Fin 44"
    by (simp add: AVAILABLE_TEMPERATURES_def)
  have 4: "num_lt (Fin 20) (Fin 35)" by simp
  have 5: "num_gt PosInf (Fin 45)" by (simp add: num_gt_def)
  from c 1 have "parseTargetTemperatureToRange (Fin 40) = Some (Fin 40)" by blast
  moreover from c 2 3 have "parseTargetTemperatureToRange (Fin (89 / 2)) = Some (Fin 44)"
    by metis
  moreover from c 4 have "parseTargetTemperatureToRange (Fin 20) = Some (Fin 35)" by blast
  moreover from c 5 have "parseTargetTemperatureToRange PosInf = Some (Fin 45)" by blast
  ultimately show ?thesis by blast
qed

text \<open>
  C10. For every input other than NaN the mapper returns one of the eleven supported
  values; the outcome without a value is not reachable for such an input.
\<close>

theorem parseTargetTemperatureToRange_supported:
  "t \<noteq> NaN \<Longrightarrow>
     length AVAILABLE_TEMPERATURES = 11 \<and>
     (\<exists>v \<in> set AVAILABLE_TEMPERATURES. parseTargetTemperatureToRange t = Some v)"
  by (cases t)
    (auto simp: parseTargetTemperatureToRange_Fin parseTargetTemperatureToRange_PosInf
      parseTargetTemperatureToRange_NegInf AVAILABLE_TEMPERATURES_def)

theorem parseTargetTemperatureToRange_supported_witness:
  "Fin (75 / 2) \<noteq> NaN \<and>
   (\<exists>v \<in> set AVAILABLE_TEMPERATURES. parseTargetTemperatureToRange (Fin (75 / 2)) = Some v)"
  using parseTargetTemperatureToRange_supported [of "Fin (75 / 2)"] by simp

text \<open>
  C5. The device index decoder looks the table up at position \<open>rawIndex - 3\<close>: an integer
  index from 3 to 13 gives \<open>35 + (rawIndex - 3)\<close>, in particular 3 gives 35 and 13 gives
  45; every other number (an integer outside 3..13, a fraction, an infinity, NaN) gives
  no value.
\<close>

theorem parseRinnaiTemperature_table:
  "parseRinnaiTemperature (Fin (of_int i)) =
     (if 0 \<le> i - 3 then nth_opt RINNAI_STATE_TEMPERATURES (nat (i - 3)) else None) \<and>
   parseRinnaiTemperature (Fin (of_int i)) =
     (if 3 \<le> i \<and> i \<le> 13 then Some (Fin (of_int (35 + (i - 3)))) else None) \<and>
   parseRinnaiTemperature (Fin 3) = Some (Fin 35) \<and>
   parseRinnaiTemperature (Fin 13) = Some (Fin 45) \<and>
   ((\<forall>j. n = Fin (of_int j) \<longrightarrow> j < 3 \<or> 13 < j) \<longrightarrow> parseRinnaiTemperature n = None)"
proof (intro conjI impI)
  have fl: "\<lfloor>rat_of_int i - 3\<rfloor> = i - 3"
    by (metis floor_of_int of_int_diff of_int_numeral)
  show a: "parseRinnaiTemperature (Fin (of_int i)) =
     (if 0 \<le> i - 3 then nth_opt RINNAI_STATE_TEMPERATURES (nat (i - 3)) else None)"
    by (simp add: parseRinnaiTemperature_def array_get_def fl)
  show b: "parseRinnaiTemperature (Fin (of_int i)) =
     (if 3 \<le> i \<and> i \<le> 13 then Some (Fin (of_int (35 + (i - 3)))) else None)"
  proof (cases "3 \<le> i \<and> i \<le> 13")
    case True
    then have "i \<in> {3,4,5,6,7,8,9,10,11,12,13}" by simp presburger
    then show ?thesis
      unfolding a by (auto simp: nth_opt_def RINNAI_STATE_TEMPERATURES_def)
  next
    case False
    then show ?thesis
      unfolding a by (auto simp: nth_opt_def RINNAI_STATE_TEMPERATURES_def)
  qed
  show "parseRinnaiTemperature (Fin 3) = Some (Fin 35)"
    by (simp add: parseRinnaiTemperature_def array_get_def nth_opt_def
        RINNAI_STATE_TEMPERATURES_def)
  show "parseRinnaiTemperature (Fin 13) = Some (Fin 45)"
    by (simp add: parseRinnaiTemperature_def array_get_def nth_opt_def
        RINNAI_STATE_TEMPERATURES_def)
  assume out: "\<forall>j. n = Fin (of_int j) \<longrightarrow> j < 3 \<or> 13 < j"
  show "parseRinnaiTemperature n = None"
  proof (cases n)
    case (Fin r)
    show ?thesis
    proof (cases "r - 3 = of_int \<lfloor>r - 3\<rfloor>")
      case True
      then have "r = of_int (\<lfloor>r - 3\<rfloor> + 3)" by simp
      with out Fin have "\<lfloor>r - 3\<rfloor> + 3 < 3 \<or> 13 < \<lfloor>r - 3\<rfloor> + 3" by blast
      then have "\<lfloor>r - 3\<rfloor> < 0 \<or> 10 < \<lfloor>r - 3\<rfloor>" by linarith
      with Fin show ?thesis
        by (auto simp: parseRinnaiTemperature_def array_get_def nth_opt_def
            RINNAI_STATE_TEMPERATURES_def)
    next
      case False
      with Fin show ?thesis
        by (simp add: parseRinnaiTemperature_def array_get_def)
    qed
  qed (simp_all add: parseRinnaiTemperature_def array_get_def)
qed

theorem parseRinnaiTemperature_table_witness:
  "parseRinnaiTemperature (Fin 6) = Some (Fin 38) \<and>
   parseRinnaiTemperature (Fin 14) = None \<and>
   parseRinnaiTemperature NaN = None"
proof -
  have o1: "\<forall>j. Fin 14 = Fin (of_int j) \<longrightarrow> j < 3 \<or> 13 < j" by simp
  have o2: "\<forall>j. NaN = Fin (of_int j) \<longrightarrow> j < 3 \<or> 13 < j" by simp
  note t = parseRinnaiTemperature_table [of 6 "Fin 14"]
  from t have "parseRinnaiTemperature (Fin (of_int 6)) =
      (if (3::int) \<le> 6 \<and> (6::int) \<le> 13 then Some (Fin (of_int (35 + (6 - 3)))) else None)"
    by blast
  then have "parseRinnaiTemperature (Fin 6) = Some (Fin 38)" by simp
  moreover from t o1 have "parseRinnaiTemperature (Fin 14) = None" by blast
  moreover from parseRinnaiTemperature_table [of 6 NaN] o2
  have "parseRinnaiTemperature NaN = None" by blast
  ultimately show ?thesis by blast
qed

section \<open>The telemetry decoder\<close>

lemma split_not_Nil: "split sep s \<noteq> []"
  by (induction s) (auto split: list.splits)

lemma split_append_field:
  "sep \<notin> set f \<Longrightarrow> split sep (f @ rest) = (f @ hd (split sep rest)) # tl (split sep rest)"
proof (induction f)
  case Nil
  then show ?case using split_not_Nil [of sep rest] by simp
next
  case (Cons c f)
  then show ?case by auto
qed

lemma split_join:
  "fs \<noteq> [] \<Longrightarrow> \<forall>f \<in> set fs. sep \<notin> set f \<Longrightarrow> split sep (join sep fs) = fs"
proof (induction sep fs rule: join.induct)
  case (1 sep)
  then show ?case by simp
next
  case (2 sep f)
  then show ?case using split_append_field [of sep f "[]"] by simp
next
  case (3 sep f g fs)
  then show ?case using split_append_field [of sep f "sep # join sep (g # fs)"] by simp
qed

lemma parseInt_undefined: "parseInt None = NaN"
  by (simp add: parseInt_def is_space_def is_digit_def)

lemma parseRinnaiTemperature_NaN: "parseRinnaiTemperature NaN = None"
  by (simp add: parseRinnaiTemperature_def array_get_def)

text \<open>
  C6. A line made of at least 8 comma-free fields decodes to
  \<open>isPoweredOn = (field 0 \<noteq> "11")\<close>, \<open>isHeating = (field 2 = "1")\<close> and
  \<open>targetTemperature = parseRinnaiTemperature (parseInt (field 7))\<close>; and whatever the other
  fields are, a line whose field 0 is \<open>"11"\<close> decodes to \<open>isPoweredOn = False\<close>.
\<close>

theorem parseStateParams_fields:
  "(8 \<le> length fs \<and> (\<forall>f \<in> set fs. CHR '','' \<notin> set f) \<longrightarrow>
      parseStateParams (join CHR '','' fs) =
        \<lparr>targetTemperature = parseRinnaiTemperature (parseInt (Some (fs ! 7))),
         isHeating = (fs ! 2 = ''1''),
         isPoweredOn = (fs ! 0 \<noteq> ''11'')\<rparr>) \<and>
   (hd (split CHR '','' line) = ''11'' \<longrightarrow> \<not> isPoweredOn (parseStateParams line))"
proof (intro conjI impI)
  assume a: "8 \<le> length fs \<and> (\<forall>f \<in> set fs. CHR '','' \<notin> set f)"
  then have ne: "fs \<noteq> []" by auto
  with a have "split CHR '','' (join CHR '','' fs) = fs" by (simp add: split_join)
  with a ne show "parseStateParams (join CHR '','' fs) =
        \<lparr>targetTemperature = parseRinnaiTemperature (parseInt (Some (fs ! 7))),
         isHeating = (fs ! 2 = ''1''),
         isPoweredOn = (fs ! 0 \<noteq> ''11'')\<rparr>"
    by (simp add: parseStateParams_def Let_def nth_opt_def field_eq_def)
next
  assume "hd (split CHR '','' line) = ''11''"
  then show "\<not> isPoweredOn (parseStateParams line)"
    using split_not_Nil [of "CHR '',''" line]
    by (simp add: parseStateParams_def Let_def nth_opt_def field_eq_def hd_conv_nth)
qed

theorem parseStateParams_fields_witness:
  "parseStateParams ''10,x,1,x,x,x,x,6,x'' =
     \<lparr>targetTemperature = parseRinnaiTemperature (Fin 6), isHeating = True, isPoweredOn = True\<rparr> \<and>
   \<not> isPoweredOn (parseStateParams ''11,x,1,x,x,x,x,6,x'')"
proof -
  let ?fs = "[''10'', ''x'', ''1'', ''x'', ''x'', ''x'', ''x'', ''6'', ''x'']"
  note t = parseStateParams_fields [of ?fs "''11,x,1,x,x,x,x,6,x''"]
  have h: "8 \<le> length ?fs \<and> (\<forall>f \<in> set ?fs. CHR '','' \<notin> set f)" by simp
  have j: "join CHR '','' ?fs = ''10,x,1,x,x,x,x,6,x''" by simp
  have p: "parseInt (Some ''6'') = Fin 6"
    by (simp add: parseInt_def is_space_def is_digit_def digits_val_def digit_val_def)
  have s: "hd (split CHR '','' ''11,x,1,x,x,x,x,6,x'') = ''11''" by simp
  from t h have "parseStateParams (join CHR '','' ?fs) =
        \<lparr>targetTemperature = parseRinnaiTemperature (parseInt (Some (?fs ! 7))),
         isHeating = (?fs ! 2 = ''1''),
         isPoweredOn = (?fs ! 0 \<noteq> ''11'')\<rparr>" by blast
  then have "parseStateParams ''10,x,1,x,x,x,x,6,x'' =
     \<lparr>targetTemperature = parseRinnaiTemperature (Fin 6), isHeating = True, isPoweredOn = True\<rparr>"
    unfolding j by (simp add: p)
  moreover from t s have "\<not> isPoweredOn (parseStateParams ''11,x,1,x,x,x,x,6,x'')" by blast
  ultimately show ?thesis by blast
qed

text \<open>
  C7, as the code has it. The decoder raises nothing. A line with fewer than 8 fields, or
  with a field 7 in which \<open>parseInt\<close> finds no integer, decodes to a state whose
  \<open>targetTemperature\<close> is missing; \<open>isHeating\<close> tells whether field 2 exists and is
  \<open>"1"\<close>, and \<open>isPoweredOn\<close> whether field 0 differs from \<open>"11"\<close>.
\<close>

theorem parseStateParams_malformed:
  "length (split CHR '','' line) < 8 \<or> parseInt (nth_opt (split CHR '','' line) 7) = NaN \<Longrightarrow>
   parseStateParams line =
     \<lparr>targetTemperature = None,
      isHeating = field_eq (nth_opt (split CHR '','' line) 2) ''1'',
      isPoweredOn = (hd (split CHR '','' line) \<noteq> ''11'')\<rparr>"
proof -
  assume "length (split CHR '','' line) < 8 \<or> parseInt (nth_opt (split CHR '','' line) 7) = NaN"
  then have "parseInt (nth_opt (split CHR '','' line) 7) = NaN"
    by (auto simp: nth_opt_def parseInt_undefined)
  then show ?thesis
    using split_not_Nil [of "CHR '',''" line]
    by (simp add: parseStateParams_def Let_def parseRinnaiTemperature_NaN nth_opt_def
        field_eq_def hd_conv_nth)
qed

theorem parseStateParams_malformed_witness:
  "parseStateParams ''10,x,1'' =
     \<lparr>targetTemperature = None, isHeating = True, isPoweredOn = True\<rparr>"
proof -
  have "length (split CHR '','' ''10,x,1'') < 8 \<or>
        parseInt (nth_opt (split CHR '','' ''10,x,1'') 7) = NaN" by simp
  from parseStateParams_malformed [OF this] show ?thesis
    by (simp add: nth_opt_def field_eq_def)
qed

text \<open>
  The claim C7 as stated fails: a line of three fields, and a line of nine fields whose
  field 7 is \<open>abc\<close>, are both decoded to a state; no error is raised.
\<close>

theorem parseStateParams_malformed_counterexample:
  "length (split CHR '','' ''11,x,0'') < 8 \<and>
   parseStateParams ''11,x,0'' =
     \<lparr>targetTemperature = None, isHeating = False, isPoweredOn = False\<rparr> \<and>
   parseInt (nth_opt (split CHR '','' ''10,x,1,x,x,x,x,abc,x'') 7) = NaN \<and>
   parseStateParams ''10,x,1,x,x,x,x,abc,x'' =
     \<lparr>targetTemperature = None, isHeating = True, isPoweredOn = True\<rparr>"
  by (simp add: parseStateParams_def Let_def nth_opt_def field_eq_def parseInt_def
      is_space_def is_digit_def parseRinnaiTemperature_NaN)

section \<open>The state cache\<close>

lemma getState_hit:
  "lastState w = Some s \<Longrightarrow> getState api False w = (Inr s, w)"
  by (simp add: getState_def)

lemma getState_fetch:
  "lastState w = None \<or> ignoreCache \<Longrightarrow>
   getState api ignoreCache w =
     (case api ''tela_'' (device w) of
        (Some data, d) \<Rightarrow>
          (Inr (parseStateParams data),
           w\<lparr>device := d, requests := requests w @ [''tela_''],
             lastState := Some (parseStateParams data)\<rparr>)
      | (None, d) \<Rightarrow>
          (Inl TransportError, w\<lparr>device := d, requests := requests w @ [''tela_'']\<rparr>))"
  by (auto simp: getState_def rinnaiApi_def Let_def split: prod.splits option.splits)

text \<open>
  C8. With a state in the cache, \<open>getState(false)\<close> returns that state and leaves the
  world as it was: no request is issued and no error is possible. With an empty cache or
  a forced refresh, \<open>getState\<close> issues exactly one \<open>tela_\<close> request; when the device answers,
  the decoded answer is stored in the cache and returned, and when the request fails the
  error is passed on and the cache keeps its content. \<open>getState(true)\<close> always issues
  the request.
\<close>

theorem getState_cache:
  "(lastState w = Some s \<longrightarrow> getState api False w = (Inr s, w)) \<and>
   (lastState w = None \<or> ignoreCache \<longrightarrow>
      getState api ignoreCache w =
        (case api ''tela_'' (device w) of
           (Some data, d) \<Rightarrow>
             (Inr (parseStateParams data),
              w\<lparr>device := d, requests := requests w @ [''tela_''],
                lastState := Some (parseStateParams data)\<rparr>)
         | (None, d) \<Rightarrow>
             (Inl TransportError, w\<lparr>device := d, requests := requests w @ [''tela_'']\<rparr>))) \<and>
   requests (snd (getState api True w)) = requests w @ [''tela_'']"
proof (intro conjI impI)
  assume "lastState w = Some s"
  then show "getState api False w = (Inr s, w)" by (rule getState_hit)
next
  assume "lastState w = None \<or> ignoreCache"
  then show "getState api ignoreCache w =
        (case api ''tela_'' (device w) of
           (Some data, d) \<Rightarrow>
             (Inr (parseStateParams data),
              w\<lparr>device := d, requests := requests w @ [''tela_''],
                lastState := Some (parseStateParams data)\<rparr>)
         | (None, d) \<Rightarrow>
             (Inl TransportError, w\<lparr>device := d, requests := requests w @ [''tela_'']\<rparr>))"
    by (rule getState_fetch)
next
  show "requests (snd (getState api True w)) = requests w @ [''tela_'']"
    by (simp add: getState_fetch split: prod.splits option.splits)
qed


theorem getState_cache_witness:
  "getState scripted False
     \<lparr>device = [], lastState = Some (parseStateParams ''10,0,1,0,0,0,0,6,0''), requests = []\<rparr> =
     (Inr (parseStateParams ''10,0,1,0,0,0,0,6,0''),
      \<lparr>device = [], lastState = Some (parseStateParams ''10,0,1,0,0,0,0,6,0''), requests = []\<rparr>) \<and>
   getState scripted False
     \<lparr>device = [Some ''11,0,0,0,0,0,0,8,0''], lastState = None, requests = []\<rparr> =
     (Inr (parseStateParams ''11,0,0,0,0,0,0,8,0''),
      \<lparr>device = [], lastState = Some (parseStateParams ''11,0,0,0,0,0,0,8,0''),
       requests = [''tela_'']\<rparr>)"
proof -
  let ?w = "\<lparr>device = [] :: string option list,
             lastState = Some (parseStateParams ''10,0,1,0,0,0,0,6,0''), requests = []\<rparr>"
  let ?v = "\<lparr>device = [Some ''11,0,0,0,0,0,0,8,0''], lastState = None, requests = []\<rparr>"
  have 1: "lastState ?w = Some (parseStateParams ''10,0,1,0,0,0,0,6,0'')" by simp
  have 2: "lastState ?v = None \<or> False" by simp
  from getState_cache [of ?w "parseStateParams ''10,0,1,0,0,0,0,6,0''" scripted False] 1
  have a: "getState scripted False ?w = (Inr (parseStateParams ''10,0,1,0,0,0,0,6,0''), ?w)"
    by blast
  from getState_cache [of ?v _ scripted False] 2
  have "getState scripted False ?v =
        (case scripted ''tela_'' (device ?v) of
           (Some data, d) \<Rightarrow>
             (Inr (parseStateParams data),
              ?v\<lparr>device := d, requests := requests ?v @ [''tela_''],
                lastState := Some (parseStateParams data)\<rparr>)
         | (None, d) \<Rightarrow>
             (Inl TransportError, ?v\<lparr>device := d, requests := requests ?v @ [''tela_'']\<rparr>))"
    by blast
  then have b: "getState scripted False ?v =
     (Inr (parseStateParams ''11,0,0,0,0,0,0,8,0''),
      \<lparr>device = [], lastState = Some (parseStateParams ''11,0,0,0,0,0,0,8,0''),
       requests = [''tela_'']\<rparr>)"
    by simp
  from a b show ?thesis by blast
qed

section \<open>The power switch\<close>

lemma setPowerState_hit_same:
  "lastState w = Some s \<Longrightarrow> isPoweredOn s = turnOn \<Longrightarrow>
   setPowerState api turnOn w = (Inr ReturnedTrue, w)"
  by (simp add: setPowerState_def getState_hit)

lemma setPowerState_hit_other:
  "lastState w = Some s \<Longrightarrow> isPoweredOn s \<noteq> turnOn \<Longrightarrow>
   setPowerState api turnOn w =
     (case api ''/lig'' (device w) of
        (Some data, d) \<Rightarrow>
          (Inr (ReturnedState (parseStateParams data)),
           w\<lparr>device := d, requests := requests w @ [''/lig''],
             lastState := Some (parseStateParams data)\<rparr>)
      | (None, d) \<Rightarrow>
          (Inl TransportError, w\<lparr>device := d, requests := requests w @ [''/lig'']\<rparr>))"
  by (auto simp: setPowerState_def getState_hit rinnaiApi_def Let_def
      split: prod.splits option.splits)

lemma setPowerState_requests:
  "\<exists>rs. requests (snd (setPowerState api turnOn w)) = requests w @ rs \<and>
        rs \<in> {[], [''tela_''], [''/lig''], [''tela_'', ''/lig'']}"
  by (auto simp: setPowerState_def getState_def rinnaiApi_def Let_def
      split: prod.splits option.splits sum.splits)


lemma setPowerState_empty_requests:
  "lastState w = None \<Longrightarrow>
   \<exists>rs. requests (snd (setPowerState api turnOn w)) = requests w @ ''tela_'' # rs \<and>
        rs \<in> {[], [''/lig'']}"
  by (auto simp: setPowerState_def getState_def rinnaiApi_def Let_def
      split: prod.splits option.splits sum.splits)

lemma setPowerState_state_cached:
  "setPowerState api turnOn w = (Inr (ReturnedState s), w1) \<Longrightarrow> lastState w1 = Some s"
  by (auto simp: setPowerState_def Let_def split: prod.splits option.splits sum.splits if_splits)

lemma setPowerState_twice:
  assumes c1: "setPowerState api turnOn w = (r1, w1)"
    and c2: "setPowerState api turnOn w1 = (r2, w2)"
    and flipped: "''/lig'' \<in> set (drop (length (requests w)) (requests w1)) \<longrightarrow>
                  (\<exists>s. r1 = Inr (ReturnedState s) \<and> isPoweredOn s = turnOn)"
  shows "\<exists>rs. requests w2 = requests w @ rs \<and> count_list rs ''/lig'' \<le> 1"
proof -
  from setPowerState_requests [of api turnOn w] c1
  obtain rs1 where rs1: "requests w1 = requests w @ rs1"
    "rs1 \<in> {[], [''tela_''], [''/lig''], [''tela_'', ''/lig'']}" by auto
  from setPowerState_requests [of api turnOn w1] c2
  obtain rs2 where rs2: "requests w2 = requests w1 @ rs2"
    "rs2 \<in> {[], [''tela_''], [''/lig''], [''tela_'', ''/lig'']}" by auto
  show ?thesis
  proof (cases "''/lig'' \<in> set rs1")
    case True
    with flipped rs1 obtain s where s: "r1 = Inr (ReturnedState s)" "isPoweredOn s = turnOn"
      by auto
    from c1 s have "lastState w1 = Some s" by (simp add: setPowerState_state_cached)
    with s c2 have "w2 = w1" by (simp add: setPowerState_hit_same)
    with rs1 show ?thesis by auto
  next
    case False
    with rs1 have "count_list rs1 ''/lig'' = 0" by auto
    moreover from rs2 have "count_list rs2 ''/lig'' \<le> 1" by auto
    ultimately have "count_list (rs1 @ rs2) ''/lig'' \<le> 1" by simp
    with rs1 rs2 show ?thesis by auto
  qed
qed

lemma setPowerState_read_failed:
  "getState api False w = (Inl e, v) \<Longrightarrow> setPowerState api turnOn w = (Inl e, v)"
  by (simp add: setPowerState_def)

lemma setPowerState_decides:
  "getState api False w = (Inr s0, v) \<Longrightarrow>
   setPowerState api turnOn w =
     (if isPoweredOn s0 = turnOn then (Inr ReturnedTrue, v)
      else (case api ''/lig'' (device v) of
              (Some data, d) \<Rightarrow>
                (Inr (ReturnedState (parseStateParams data)),
                 v\<lparr>device := d, requests := requests v @ [''/lig''],
                   lastState := Some (parseStateParams data)\<rparr>)
            | (None, d) \<Rightarrow>
                (Inl TransportError, v\<lparr>device := d, requests := requests v @ [''/lig'']\<rparr>)))"
  by (simp add: setPowerState_def rinnaiApi_def Let_def split: prod.splits option.splits)

lemma setPowerState_empty_read_failed:
  assumes "lastState w = None" and "api ''tela_'' (device w) = (None, d0)"
  shows "setPowerState api turnOn w =
         (Inl TransportError, w\<lparr>device := d0, requests := requests w @ [''tela_'']\<rparr>)"
proof -
  from assms have "getState api False w =
      (Inl TransportError, w\<lparr>device := d0, requests := requests w @ [''tela_'']\<rparr>)"
    by (simp add: getState_fetch)
  then show ?thesis by (rule setPowerState_read_failed)
qed

lemma setPowerState_empty_same:
  assumes "lastState w = None" and "api ''tela_'' (device w) = (Some data0, d0)"
    and "isPoweredOn (parseStateParams data0) = turnOn"
  shows "setPowerState api turnOn w =
         (Inr ReturnedTrue,
          w\<lparr>device := d0, requests := requests w @ [''tela_''],
            lastState := Some (parseStateParams data0)\<rparr>)"
proof -
  from assms(1,2) have "getState api False w =
      (Inr (parseStateParams data0),
       w\<lparr>device := d0, requests := requests w @ [''tela_''],
         lastState := Some (parseStateParams data0)\<rparr>)"
    by (simp add: getState_fetch)
  from setPowerState_decides [OF this, of turnOn] assms(3) show ?thesis by simp
qed

lemma setPowerState_empty_other:
  assumes "lastState w = None" and "api ''tela_'' (device w) = (Some data0, d0)"
    and "isPoweredOn (parseStateParams data0) \<noteq> turnOn"
  shows "setPowerState api turnOn w =
         (case api ''/lig'' d0 of
            (Some data, d) \<Rightarrow>
              (Inr (ReturnedState (parseStateParams data)),
               w\<lparr>device := d, requests := requests w @ [''tela_'', ''/lig''],
                 lastState := Some (parseStateParams data)\<rparr>)
          | (None, d) \<Rightarrow>
              (Inl TransportError,
               w\<lparr>device := d, requests := requests w @ [''tela_'', ''/lig''],
                 lastState := Some (parseStateParams data0)\<rparr>))"
proof -
  from assms(1,2) have "getState api False w =
      (Inr (parseStateParams data0),
       w\<lparr>device := d0, requests := requests w @ [''tela_''],
         lastState := Some (parseStateParams data0)\<rparr>)"
    by (simp add: getState_fetch)
  from setPowerState_decides [OF this, of turnOn] assms(3) show ?thesis
    by (simp split: prod.splits option.splits)
qed

text \<open>
  C9, as the code has it. \<open>setPowerState\<close> takes the power state from \<open>getState(false)\<close>
  and decides on it: if its power flag equals \<open>turnOn\<close> the call returns \<open>true\<close> and issues
  no \<open>/lig\<close> request; otherwise it issues exactly one \<open>/lig\<close> request and, when answered,
  caches and returns the decoded answer. With a state in the cache that state is taken
  and, when the flag already matches, the world is left untouched (no request at all).
  With an empty cache the call first issues one \<open>tela_\<close> read, whose decoded answer is
  cached and decided on; a read that is not answered ends the call with that error. In
  every case a call issues at most one \<open>/lig\<close> request and nothing is retried. Two calls
  in a row with the same boolean issue at most one \<open>/lig\<close> request between them, provided
  a toggle issued by the first call was answered with the flipped power state.
\<close>

theorem setPowerState_toggle:
  "(lastState w = Some s \<and> isPoweredOn s = turnOn \<longrightarrow>
      setPowerState api turnOn w = (Inr ReturnedTrue, w)) \<and>
   (lastState w = Some s \<and> isPoweredOn s \<noteq> turnOn \<longrightarrow>
      setPowerState api turnOn w =
        (case api ''/lig'' (device w) of
           (Some data, d) \<Rightarrow>
             (Inr (ReturnedState (parseStateParams data)),
              w\<lparr>device := d, requests := requests w @ [''/lig''],
                lastState := Some (parseStateParams data)\<rparr>)
         | (None, d) \<Rightarrow>
             (Inl TransportError, w\<lparr>device := d, requests := requests w @ [''/lig'']\<rparr>))) \<and>
   (lastState w = None \<longrightarrow>
      (\<exists>rs. requests (snd (setPowerState api turnOn w)) = requests w @ ''tela_'' # rs \<and>
            rs \<in> {[], [''/lig'']})) \<and>
   (\<exists>rs. requests (snd (setPowerState api turnOn w)) = requests w @ rs \<and>
         rs \<in> {[], [''tela_''], [''/lig''], [''tela_'', ''/lig'']}) \<and>
   (setPowerState api turnOn w = (r1, w1) \<and> setPowerState api turnOn w1 = (r2, w2) \<and>
    (''/lig'' \<in> set (drop (length (requests w)) (requests w1)) \<longrightarrow>
       (\<exists>s'. r1 = Inr (ReturnedState s') \<and> isPoweredOn s' = turnOn)) \<longrightarrow>
      (\<exists>rs. requests w2 = requests w @ rs \<and> count_list rs ''/lig'' \<le> 1)) \<and>
   (getState api False w = (Inl e, v) \<longrightarrow> setPowerState api turnOn w = (Inl e, v)) \<and>
   (getState api False w = (Inr s0, v) \<longrightarrow>
      setPowerState api turnOn w =
        (if isPoweredOn s0 = turnOn then (Inr ReturnedTrue, v)
         else (case api ''/lig'' (device v) of
                 (Some data, d) \<Rightarrow>
                   (Inr (ReturnedState (parseStateParams data)),
                    v\<lparr>device := d, requests := requests v @ [''/lig''],
                      lastState := Some (parseStateParams data)\<rparr>)
               | (None, d) \<Rightarrow>
                   (Inl TransportError,
                    v\<lparr>device := d, requests := requests v @ [''/lig'']\<rparr>)))) \<and>
   (lastState w = None \<and> api ''tela_'' (device w) = (None, d0) \<longrightarrow>
      setPowerState api turnOn w =
        (Inl TransportError, w\<lparr>device := d0, requests := requests w @ [''tela_'']\<rparr>)) \<and>
   (lastState w = None \<and> api ''tela_'' (device w) = (Some data0, d0) \<and>
    isPoweredOn (parseStateParams data0) = turnOn \<longrightarrow>
      setPowerState api turnOn w =
        (Inr ReturnedTrue,
         w\<lparr>device := d0, requests := requests w @ [''tela_''],
           lastState := Some (parseStateParams data0)\<rparr>)) \<and>
   (lastState w = None \<and> api ''tela_'' (device w) = (Some data0, d0) \<and>
    isPoweredOn (parseStateParams data0) \<noteq> turnOn \<longrightarrow>
      setPowerState api turnOn w =
        (case api ''/lig'' d0 of
           (Some data, d) \<Rightarrow>
             (Inr (ReturnedState (parseStateParams data)),
              w\<lparr>device := d, requests := requests w @ [''tela_'', ''/lig''],
                lastState := Some (parseStateParams data)\<rparr>)
         | (None, d) \<Rightarrow>
             (Inl TransportError,
              w\<lparr>device := d, requests := requests w @ [''tela_'', ''/lig''],
                lastState := Some (parseStateParams data0)\<rparr>)))"
proof (intro conjI)
  show "lastState w = Some s \<and> isPoweredOn s = turnOn \<longrightarrow>
      setPowerState api turnOn w = (Inr ReturnedTrue, w)"
    using setPowerState_hit_same [of w s turnOn api] by blast
  show "lastState w = Some s \<and> isPoweredOn s \<noteq> turnOn \<longrightarrow>
      setPowerState api turnOn w =
        (case api ''/lig'' (device w) of
           (Some data, d) \<Rightarrow>
             (Inr (ReturnedState (parseStateParams data)),
              w\<lparr>device := d, requests := requests w @ [''/lig''],
                lastState := Some (parseStateParams data)\<rparr>)
         | (None, d) \<Rightarrow>
             (Inl TransportError, w\<lparr>device := d, requests := requests w @ [''/lig'']\<rparr>))"
    using setPowerState_hit_other [of w s turnOn api] by blast
  show "lastState w = None \<longrightarrow>
      (\<exists>rs. requests (snd (setPowerState api turnOn w)) = requests w @ ''tela_'' # rs \<and>
            rs \<in> {[], [''/lig'']})"
    using setPowerState_empty_requests [of w api turnOn] by blast
  show "\<exists>rs. requests (snd (setPowerState api turnOn w)) = requests w @ rs \<and>
         rs \<in> {[], [''tela_''], [''/lig''], [''tela_'', ''/lig'']}"
    by (rule setPowerState_requests)
  show "setPowerState api turnOn w = (r1, w1) \<and> setPowerState api turnOn w1 = (r2, w2) \<and>
    (''/lig'' \<in> set (drop (length (requests w)) (requests w1)) \<longrightarrow>
       (\<exists>s'. r1 = Inr (ReturnedState s') \<and> isPoweredOn s' = turnOn)) \<longrightarrow>
      (\<exists>rs. requests w2 = requests w @ rs \<and> count_list rs ''/lig'' \<le> 1)"
    using setPowerState_twice [of api turnOn w r1 w1 r2 w2] by blast
  show "getState api False w = (Inl e, v) \<longrightarrow> setPowerState api turnOn w = (Inl e, v)"
    using setPowerState_read_failed [of api w e v turnOn] by blast
  show "getState api False w = (Inr s0, v) \<longrightarrow>
      setPowerState api turnOn w =
        (if isPoweredOn s0 = turnOn then (Inr ReturnedTrue, v)
         else (case api ''/lig'' (device v) of
                 (Some data, d) \<Rightarrow>
                   (Inr (ReturnedState (parseStateParams data)),
                    v\<lparr>device := d, requests := requests v @ [''/lig''],
                      lastState := Some (parseStateParams data)\<rparr>)
               | (None, d) \<Rightarrow>
                   (Inl TransportError,
                    v\<lparr>device := d, requests := requests v @ [''/lig'']\<rparr>)))"
    using setPowerState_decides [of api w s0 v turnOn] by blast
  show "lastState w = None \<and> api ''tela_'' (device w) = (None, d0) \<longrightarrow>
      setPowerState api turnOn w =
        (Inl TransportError, w\<lparr>device := d0, requests := requests w @ [''tela_'']\<rparr>)"
    using setPowerState_empty_read_failed [of w api d0 turnOn] by blast
  show "lastState w = None \<and> api ''tela_'' (device w) = (Some data0, d0) \<and>
    isPoweredOn (parseStateParams data0) = turnOn \<longrightarrow>
      setPowerState api turnOn w =
        (Inr ReturnedTrue,
         w\<lparr>device := d0, requests := requests w @ [''tela_''],
           lastState := Some (parseStateParams data0)\<rparr>)"
    using setPowerState_empty_same [of w api data0 d0 turnOn] by blast
  show "lastState w = None \<and> api ''tela_'' (device w) = (Some data0, d0) \<and>
    isPoweredOn (parseStateParams data0) \<noteq> turnOn \<longrightarrow>
      setPowerState api turnOn w =
        (case api ''/lig'' d0 of
           (Some data, d) \<Rightarrow>
             (Inr (ReturnedState (parseStateParams data)),
              w\<lparr>device := d, requests := requests w @ [''tela_'', ''/lig''],
                lastState := Some (parseStateParams data)\<rparr>)
         | (None, d) \<Rightarrow>
             (Inl TransportError,
              w\<lparr>device := d, requests := requests w @ [''tela_'', ''/lig''],
                lastState := Some (parseStateParams data0)\<rparr>))"
    using setPowerState_empty_other [of w api data0 d0 turnOn] by blast
qed

theorem setPowerState_toggle_witness:
  "setPowerState scripted True
     \<lparr>device = [Some ''10,0,1,0,0,0,0,6,0''],
      lastState = Some (parseStateParams ''11,0,0,0,0,0,0,6,0''), requests = []\<rparr> =
     (Inr (ReturnedState (parseStateParams ''10,0,1,0,0,0,0,6,0'')),
      \<lparr>device = [], lastState = Some (parseStateParams ''10,0,1,0,0,0,0,6,0''),
       requests = [''/lig'']\<rparr>) \<and>
   setPowerState scripted True
     \<lparr>device = [], lastState = Some (parseStateParams ''10,0,1,0,0,0,0,6,0''),
      requests = [''/lig'']\<rparr> =
     (Inr ReturnedTrue,
      \<lparr>device = [], lastState = Some (parseStateParams ''10,0,1,0,0,0,0,6,0''),
       requests = [''/lig'']\<rparr>) \<and>
   setPowerState scripted True
     \<lparr>device = [Some ''11,0,0,0,0,0,0,6,0'', Some ''10,0,1,0,0,0,0,6,0''],
      lastState = None, requests = []\<rparr> =
     (Inr (ReturnedState (parseStateParams ''10,0,1,0,0,0,0,6,0'')),
      \<lparr>device = [], lastState = Some (parseStateParams ''10,0,1,0,0,0,0,6,0''),
       requests = [''tela_'', ''/lig'']\<rparr>) \<and>
   setPowerState scripted False
     \<lparr>device = [Some ''11,0,0,0,0,0,0,6,0'', Some ''10,0,1,0,0,0,0,6,0''],
      lastState = None, requests = []\<rparr> =
     (Inr ReturnedTrue,
      \<lparr>device = [Some ''10,0,1,0,0,0,0,6,0''],
       lastState = Some (parseStateParams ''11,0,0,0,0,0,0,6,0''),
       requests = [''tela_'']\<rparr>)"
proof -
  let ?loff = "''11,0,0,0,0,0,0,6,0''"
  let ?lon = "''10,0,1,0,0,0,0,6,0''"
  let ?off = "parseStateParams ?loff"
  let ?on = "parseStateParams ?lon"
  let ?w = "\<lparr>device = [Some ?lon], lastState = Some ?off, requests = []\<rparr>"
  let ?w1 = "\<lparr>device = [] :: string option list, lastState = Some ?on,
              requests = [''/lig'']\<rparr>"
  let ?e = "\<lparr>device = [Some ?loff, Some ?lon], lastState = None, requests = []\<rparr>"
  have poff: "isPoweredOn ?off = False"
    by (simp add: parseStateParams_def Let_def nth_opt_def field_eq_def)
  have pon: "isPoweredOn ?on = True"
    by (simp add: parseStateParams_def Let_def nth_opt_def field_eq_def)
  have off: "lastState ?w = Some ?off \<and> isPoweredOn ?off \<noteq> True"
    by (simp add: poff)
  have on: "lastState ?w1 = Some ?on \<and> isPoweredOn ?on = True"
    by (simp add: pon)
  have e_on: "lastState ?e = None \<and> scripted ''tela_'' (device ?e) = (Some ?loff, [Some ?lon]) \<and>
      isPoweredOn ?off \<noteq> True"
    by (simp add: poff)
  have e_off: "lastState ?e = None \<and> scripted ''tela_'' (device ?e) = (Some ?loff, [Some ?lon]) \<and>
      isPoweredOn ?off = False"
    by (simp add: poff)
  note t1 = setPowerState_toggle [where w = ?w and s = ?off and turnOn = True and api = scripted]
  from t1 [THEN conjunct2, THEN conjunct1, THEN mp, OF off]
  have a: "setPowerState scripted True ?w = (Inr (ReturnedState ?on), ?w1)" by simp
  note t2 = setPowerState_toggle [where w = ?w1 and s = ?on and turnOn = True and api = scripted]
  from t2 [THEN conjunct1, THEN mp, OF on]
  have b: "setPowerState scripted True ?w1 = (Inr ReturnedTrue, ?w1)" .
  note t3 = setPowerState_toggle
    [where w = ?e and turnOn = True and api = scripted and ?data0.0 = ?loff
      and ?d0.0 = "[Some ?lon]"]
  from t3 [THEN conjunct2, THEN conjunct2, THEN conjunct2, THEN conjunct2, THEN conjunct2,
      THEN conjunct2, THEN conjunct2, THEN conjunct2, THEN conjunct2, THEN mp, OF e_on]
  have c: "setPowerState scripted True ?e =
      (Inr (ReturnedState ?on),
       \<lparr>device = [], lastState = Some ?on, requests = [''tela_'', ''/lig'']\<rparr>)"
    by simp
  note t4 = setPowerState_toggle
    [where w = ?e and turnOn = False and api = scripted and ?data0.0 = ?loff
      and ?d0.0 = "[Some ?lon]"]
  from t4 [THEN conjunct2, THEN conjunct2, THEN conjunct2, THEN conjunct2, THEN conjunct2,
      THEN conjunct2, THEN conjunct2, THEN conjunct2, THEN conjunct1, THEN mp, OF e_off]
  have d: "setPowerState scripted False ?e =
      (Inr ReturnedTrue,
       \<lparr>device = [Some ?lon], lastState = Some ?off, requests = [''tela_'']\<rparr>)"
    by simp
  from a b c d show ?thesis by (intro conjI)
qed

text \<open>
  The claim C9 as stated fails where it says that no device request is performed when the
  power state already equals \<open>turnOn\<close>: with an empty cache the state is first read from
  the device, so a \<open>tela_\<close> request is issued although the device is already on.
\<close>

theorem setPowerState_no_request_counterexample:
  "setPowerState scripted True
     \<lparr>device = [Some ''10,0,1,0,0,0,0,6,0''], lastState = None, requests = []\<rparr> =
     (Inr ReturnedTrue,
      \<lparr>device = [], lastState = Some (parseStateParams ''10,0,1,0,0,0,0,6,0''),
       requests = [''tela_'']\<rparr>) \<and>
   isPoweredOn (parseStateParams ''10,0,1,0,0,0,0,6,0'') = True"
  by (simp add: setPowerState_def getState_def rinnaiApi_def Let_def parseStateParams_def
      nth_opt_def field_eq_def)

section \<open>The convergence controller\<close>

lemma parseTargetTemperatureToRange_truthy:
  "parseTargetTemperatureToRange target = Some des \<Longrightarrow> truthy (Some des)"
  by (cases target)
    (auto simp: parseTargetTemperatureToRange_Fin parseTargetTemperatureToRange_PosInf
      parseTargetTemperatureToRange_NegInf parseTargetTemperatureToRange_NaN
      split: if_splits)

lemma try_block_invalid:
  "parseTargetTemperatureToRange target = None \<Longrightarrow>
   try_block api target lastTargetTemp w = (Threw InvalidTemperatureError, w)"
  by (simp add: try_block_def)

lemma try_block_step:
  assumes des: "parseTargetTemperatureToRange target = Some des"
    and cur: "truthy (Some cur)"
    and ne: "\<not> strict_eq des cur"
  shows "try_block api target (Some cur) w =
     (case api (if num_gt cur des then ''dec'' else ''inc'') (device w) of
        (None, d) \<Rightarrow>
          (Threw TransportError,
           w\<lparr>device := d,
             requests := requests w @ [if num_gt cur des then ''dec'' else ''inc'']\<rparr>)
      | (Some data, d) \<Rightarrow>
          (if opt_strict_eq (Some des) (targetTemperature (parseStateParams data))
           then Return (Some (parseStateParams data))
           else Continue (targetTemperature (parseStateParams data)),
           w\<lparr>device := d,
             requests := requests w @ [if num_gt cur des then ''dec'' else ''inc''],
             lastState := Some (parseStateParams data)\<rparr>))"
  using parseTargetTemperatureToRange_truthy [OF des] cur ne
  by (auto simp: try_block_def des Let_def opt_strict_eq_def opt_gt_def rinnaiApi_def
      split: prod.splits option.splits)

lemma try_block_reached:
  assumes des: "parseTargetTemperatureToRange target = Some des"
    and cur: "truthy (Some cur)"
    and eq: "strict_eq des cur"
  shows "try_block api target (Some cur) w = (Return (lastState w), w)"
  using parseTargetTemperatureToRange_truthy [OF des] cur eq
  by (simp add: try_block_def des Let_def opt_strict_eq_def)

lemma try_block_refresh:
  assumes des: "parseTargetTemperatureToRange target = Some des"
    and last: "\<not> truthy lastTargetTemp"
  shows "try_block api target lastTargetTemp w =
     (case api ''tela_'' (device w) of
        (None, d) \<Rightarrow>
          (Threw TransportError, w\<lparr>device := d, requests := requests w @ [''tela_'']\<rparr>)
      | (Some data, d) \<Rightarrow>
          if truthy (targetTemperature (parseStateParams data))
          then try_block api target (targetTemperature (parseStateParams data))
                 (w\<lparr>device := d, requests := requests w @ [''tela_''],
                    lastState := Some (parseStateParams data)\<rparr>)
          else (Threw StateUnavailableError,
                w\<lparr>device := d, requests := requests w @ [''tela_''],
                  lastState := Some (parseStateParams data)\<rparr>))"
  using parseTargetTemperatureToRange_truthy [OF des] last
  by (auto simp: try_block_def des Let_def getState_fetch
      split: prod.splits option.splits)


lemma step_fails_retry:
  assumes des: "parseTargetTemperatureToRange target = Some des"
    and cur: "truthy (Some cur)"
    and ne: "\<not> strict_eq des cur"
    and op: "op = (if num_gt cur des then ''dec'' else ''inc'')"
    and fail: "api op (device w) = (None, d)"
    and r: "retries < 5"
  shows "setTargetTemperature api target retries (Some cur) w =
         setTargetTemperature api target (retries + 1) (Some cur)
           (w\<lparr>device := d, requests := requests w @ [op]\<rparr>)"
  apply (subst setTargetTemperature.simps)
  using fail r unfolding op
  apply (simp add: try_block_step [OF des cur ne])
  done

lemma step_fails_giveup:
  assumes des: "parseTargetTemperatureToRange target = Some des"
    and cur: "truthy (Some cur)"
    and ne: "\<not> strict_eq des cur"
    and op: "op = (if num_gt cur des then ''dec'' else ''inc'')"
    and fail: "api op (device w) = (None, d)"
    and r: "\<not> retries < 5"
  shows "setTargetTemperature api target retries (Some cur) w =
         Some (Inl MaxRetriesExceededError, w\<lparr>device := d, requests := requests w @ [op]\<rparr>)"
  apply (subst setTargetTemperature.simps)
  using fail r unfolding op
  apply (simp add: try_block_step [OF des cur ne])
  done

lemma step_succeeds:
  assumes des: "parseTargetTemperatureToRange target = Some des"
    and cur: "truthy (Some cur)"
    and ne: "\<not> strict_eq des cur"
    and op: "op = (if num_gt cur des then ''dec'' else ''inc'')"
    and ok: "api op (device w) = (Some data, d)"
  shows "setTargetTemperature api target retries (Some cur) w =
         (if opt_strict_eq (Some des) (targetTemperature (parseStateParams data))
          then Some (Inr (Some (parseStateParams data)),
                 w\<lparr>device := d, requests := requests w @ [op],
                   lastState := Some (parseStateParams data)\<rparr>)
          else setTargetTemperature api target 0 (targetTemperature (parseStateParams data))
                 (w\<lparr>device := d, requests := requests w @ [op],
                    lastState := Some (parseStateParams data)\<rparr>))"
  apply (subst setTargetTemperature.simps)
  using ok unfolding op
  apply (simp add: try_block_step [OF des cur ne])
  done

lemma world_served_0: "w\<lparr>device := device w, requests := requests w @ []\<rparr> = w"
  by simp

lemma step_fails_chain:
  assumes des: "parseTargetTemperatureToRange target = Some des"
    and cur: "truthy (Some cur)"
    and ne: "\<not> strict_eq des cur"
    and op: "op = (if num_gt cur des then ''dec'' else ''inc'')"
  shows "fails api op n (device w) \<Longrightarrow> retries + n \<le> 5 \<Longrightarrow>
         setTargetTemperature api target retries (Some cur) w =
         setTargetTemperature api target (retries + n) (Some cur)
           (w\<lparr>device := served api op n (device w), requests := requests w @ replicate n op\<rparr>)"
proof (induction n arbitrary: retries w)
  case 0
  then show ?case by simp
next
  case (Suc n)
  from Suc.prems(1) obtain d where d: "api op (device w) = (None, d)" and f: "fails api op n d"
    by (auto split: prod.splits option.splits)
  let ?w1 = "w\<lparr>device := d, requests := requests w @ [op]\<rparr>"
  from Suc.prems(2) have r: "retries < 5" by simp
  have "setTargetTemperature api target retries (Some cur) w =
        setTargetTemperature api target (retries + 1) (Some cur) ?w1"
    by (rule step_fails_retry [where api = api and w = w, OF des cur ne op d r])
  also have "\<dots> = setTargetTemperature api target (retries + 1 + n) (Some cur)
      (?w1\<lparr>device := served api op n (device ?w1),
           requests := requests ?w1 @ replicate n op\<rparr>)"
    using f Suc.prems(2) by (intro Suc.IH) simp_all
  also have "?w1\<lparr>device := served api op n (device ?w1),
                 requests := requests ?w1 @ replicate n op\<rparr> =
             w\<lparr>device := served api op (Suc n) (device w),
               requests := requests w @ replicate (Suc n) op\<rparr>"
    using d by simp
  finally show ?case by simp
qed

lemma step_fails_six:
  assumes des: "parseTargetTemperatureToRange target = Some des"
    and cur: "truthy (Some cur)"
    and ne: "\<not> strict_eq des cur"
    and op: "op = (if num_gt cur des then ''dec'' else ''inc'')"
    and f: "fails api op 6 (device w)"
  shows "setTargetTemperature api target 0 (Some cur) w =
         Some (Inl MaxRetriesExceededError,
               w\<lparr>device := served api op 6 (device w),
                 requests := requests w @ replicate 6 op\<rparr>)"
proof -
  have six: "(6::nat) = Suc 5" by simp
  from f have f5: "fails api op 5 (device w)"
  proof -
    have "\<And>d. fails api op (Suc n) d \<Longrightarrow> fails api op n d" for n
      by (induction n) (auto split: prod.splits option.splits)
    with f show ?thesis unfolding six by blast
  qed
  have last: "fails api op (Suc 0) (served api op 5 (device w))"
  proof -
    have "\<And>d. fails api op (n + m) d \<Longrightarrow> fails api op m (served api op n d)" for n m
      by (induction n) (auto split: prod.splits option.splits)
    from this [of 5 "Suc 0" "device w"] f show ?thesis by simp
  qed
  then obtain d where d: "api op (served api op 5 (device w)) = (None, d)"
    by (auto split: prod.splits option.splits)
  let ?w5 = "w\<lparr>device := served api op 5 (device w), requests := requests w @ replicate 5 op\<rparr>"
  have "setTargetTemperature api target 0 (Some cur) w =
        setTargetTemperature api target (0 + 5) (Some cur) ?w5"
    using f5 by (intro step_fails_chain [OF des cur ne op]) simp_all
  also have "\<dots> = Some (Inl MaxRetriesExceededError,
      ?w5\<lparr>device := d, requests := requests ?w5 @ [op]\<rparr>)"
    using d by (intro step_fails_giveup [where api = api, OF des cur ne op]) simp_all
  also have "?w5\<lparr>device := d, requests := requests ?w5 @ [op]\<rparr> =
      w\<lparr>device := served api op 6 (device w), requests := requests w @ replicate 6 op\<rparr>"
  proof -
    have "served api op (n + 1) x = snd (api op (served api op n x))" for n x
      by (induction n arbitrary: x) simp_all
    from this [of 5 "device w"] d have "served api op 6 (device w) = d" by simp
    moreover have "replicate 5 op @ [op] = replicate 6 op"
      by (simp add: numeral_eq_Suc)
    ultimately show ?thesis by simp
  qed
  finally show ?thesis .
qed

lemma step_fails_four_then_succeeds:
  assumes des: "parseTargetTemperatureToRange target = Some des"
    and cur: "truthy (Some cur)"
    and ne: "\<not> strict_eq des cur"
    and op: "op = (if num_gt cur des then ''dec'' else ''inc'')"
    and f: "fails api op 4 (device w)"
    and ok: "api op (served api op 4 (device w)) = (Some data, d)"
  shows "setTargetTemperature api target 0 (Some cur) w =
         (if opt_strict_eq (Some des) (targetTemperature (parseStateParams data))
          then Some (Inr (Some (parseStateParams data)),
                 w\<lparr>device := d, requests := requests w @ replicate 5 op,
                   lastState := Some (parseStateParams data)\<rparr>)
          else setTargetTemperature api target 0 (targetTemperature (parseStateParams data))
                 (w\<lparr>device := d, requests := requests w @ replicate 5 op,
                    lastState := Some (parseStateParams data)\<rparr>))"
proof -
  let ?w4 = "w\<lparr>device := served api op 4 (device w), requests := requests w @ replicate 4 op\<rparr>"
  have r5: "replicate 4 op @ [op] = replicate 5 op"
    by (simp add: numeral_eq_Suc)
  have "setTargetTemperature api target 0 (Some cur) w =
        setTargetTemperature api target (0 + 4) (Some cur) ?w4"
    using f by (intro step_fails_chain [OF des cur ne op]) simp_all
  also have "\<dots> =
         (if opt_strict_eq (Some des) (targetTemperature (parseStateParams data))
          then Some (Inr (Some (parseStateParams data)),
                 ?w4\<lparr>device := d, requests := requests ?w4 @ [op],
                   lastState := Some (parseStateParams data)\<rparr>)
          else setTargetTemperature api target 0 (targetTemperature (parseStateParams data))
                 (?w4\<lparr>device := d, requests := requests ?w4 @ [op],
                    lastState := Some (parseStateParams data)\<rparr>))"
    using ok by (intro step_succeeds [where api = api, OF des cur ne op]) simp_all
  finally show ?thesis by (simp add: r5)
qed


lemmas decode_defs = parseStateParams_def Let_def nth_opt_def field_eq_def parseInt_def
  is_space_def is_digit_def digits_val_def digit_val_def parseRinnaiTemperature_def
  array_get_def RINNAI_STATE_TEMPERATURES_def

lemma line_40:
  "parseStateParams ''10,0,1,0,0,0,0,8,0'' =
     \<lparr>targetTemperature = Some (Fin 40), isHeating = True, isPoweredOn = True\<rparr>"
  by (simp add: decode_defs)

lemma failed_step_throws:
  assumes des: "parseTargetTemperatureToRange target = Some des"
    and tr: "truthy cur"
    and f: "failed_step api des cur w = Some w1"
  shows "try_block api target cur w = (Threw TransportError, w1)"
proof -
  from tr obtain c where c: "cur = Some c" by (cases cur) simp_all
  from f have ne: "\<not> strict_eq des c"
    unfolding failed_step_def c by (simp add: opt_strict_eq_def split: if_splits)
  let ?op = "if num_gt c des then ''dec'' else ''inc''"
  from f ne obtain d where
    d: "api ?op (device w) = (None, d)" and
    w1: "w1 = w\<lparr>device := d, requests := requests w @ [?op]\<rparr>"
    unfolding failed_step_def c
    by (simp add: opt_strict_eq_def opt_gt_def Let_def split: prod.splits option.splits)
  from tr have tr': "truthy (Some c)" unfolding c .
  show ?thesis
    unfolding c try_block_step [OF des tr' ne] d w1 by simp
qed

lemma no_failed_step_no_throw:
  assumes des: "parseTargetTemperatureToRange target = Some des"
    and tr: "truthy cur"
    and f: "failed_step api des cur w = None"
  shows "try_block api target cur w \<noteq> (Threw e, w1)"
proof -
  from tr obtain c where c: "cur = Some c" by (cases cur) simp_all
  from tr have tr': "truthy (Some c)" unfolding c .
  show ?thesis
  proof (cases "strict_eq des c")
    case True
    show ?thesis unfolding c try_block_reached [OF des tr' True] by simp
  next
    case False
    let ?op = "if num_gt c des then ''dec'' else ''inc''"
    from f False obtain data d where d: "api ?op (device w) = (Some data, d)"
      unfolding failed_step_def c
      by (simp add: opt_strict_eq_def opt_gt_def Let_def split: prod.splits option.splits)
    show ?thesis
      unfolding c try_block_step [OF des tr' False] d by simp
  qed
qed

lemma failed_attempt_throws:
  assumes des: "parseTargetTemperatureToRange target = Some des"
    and f: "failed_attempt api des lt w = Some w1"
  shows "\<exists>e. try_block api target lt w = (Threw e, w1)"
proof (cases "truthy lt")
  case True
  with f have "failed_step api des lt w = Some w1" by (simp add: failed_attempt_def)
  from failed_step_throws [OF des True this] show ?thesis by blast
next
  case False
  note rf = try_block_refresh [OF des False, of api w]
  obtain r d where a: "api ''tela_'' (device w) = (r, d)" by force
  show ?thesis
  proof (cases r)
    case None
    with f False a show ?thesis unfolding rf by (simp add: failed_attempt_def)
  next
    case (Some data)
    let ?s = "parseStateParams data"
    let ?w1 = "w\<lparr>device := d, requests := requests w @ [''tela_''], lastState := Some ?s\<rparr>"
    show ?thesis
    proof (cases "truthy (targetTemperature ?s)")
      case True
      with f False a Some have "failed_step api des (targetTemperature ?s) ?w1 = Some w1"
        by (simp add: failed_attempt_def Let_def)
      from failed_step_throws [OF des True this] a Some True show ?thesis
        unfolding rf by simp
    next
      case nt: False
      with f False a Some show ?thesis unfolding rf by (simp add: failed_attempt_def Let_def)
    qed
  qed
qed

lemma no_failed_attempt_no_throw:
  assumes des: "parseTargetTemperatureToRange target = Some des"
    and f: "failed_attempt api des lt w = None"
  shows "try_block api target lt w \<noteq> (Threw e, w1)"
proof (cases "truthy lt")
  case True
  with f have "failed_step api des lt w = None" by (simp add: failed_attempt_def)
  from no_failed_step_no_throw [OF des True this] show ?thesis .
next
  case False
  note rf = try_block_refresh [OF des False, of api w]
  obtain r d where a: "api ''tela_'' (device w) = (r, d)" by force
  show ?thesis
  proof (cases r)
    case None
    with f False a show ?thesis by (simp add: failed_attempt_def)
  next
    case (Some data)
    let ?s = "parseStateParams data"
    let ?w1 = "w\<lparr>device := d, requests := requests w @ [''tela_''], lastState := Some ?s\<rparr>"
    show ?thesis
    proof (cases "truthy (targetTemperature ?s)")
      case True
      with f False a Some have "failed_step api des (targetTemperature ?s) ?w1 = None"
        by (simp add: failed_attempt_def Let_def)
      from no_failed_step_no_throw [OF des True this] a Some True show ?thesis
        unfolding rf by simp
    next
      case nt: False
      with f False a Some show ?thesis by (simp add: failed_attempt_def Let_def)
    qed
  qed
qed

lemma attempt_fails_retry:
  assumes des: "parseTargetTemperatureToRange target = Some des"
    and f: "failed_attempt api des lt w = Some w1"
    and r: "retries < 5"
  shows "setTargetTemperature api target retries lt w =
         setTargetTemperature api target (retries + 1) lt w1"
proof -
  from failed_attempt_throws [OF des f] obtain e where
    "try_block api target lt w = (Threw e, w1)" by blast
  then show ?thesis
    using r by (subst setTargetTemperature.simps) simp
qed

lemma attempt_fails_giveup:
  assumes des: "parseTargetTemperatureToRange target = Some des"
    and f: "failed_attempt api des lt w = Some w1"
    and r: "\<not> retries < 5"
  shows "setTargetTemperature api target retries lt w =
         Some (Inl MaxRetriesExceededError, w1)"
proof -
  from failed_attempt_throws [OF des f] obtain e where
    "try_block api target lt w = (Threw e, w1)" by blast
  then show ?thesis
    using r by (subst setTargetTemperature.simps) simp
qed

lemma attempt_counter_irrelevant:
  assumes des: "parseTargetTemperatureToRange target = Some des"
    and f: "failed_attempt api des lt w = None"
  shows "setTargetTemperature api target retries lt w =
         setTargetTemperature api target 0 lt w"
proof -
  obtain out v where tb: "try_block api target lt w = (out, v)" by force
  with no_failed_attempt_no_throw [OF des f] have nt: "out \<noteq> Threw e" for e by auto
  have l: "setTargetTemperature api target r lt w =
      (case (out, v) of
         (Return s, w1) \<Rightarrow> Some (Inr s, w1)
       | (Continue t, w1) \<Rightarrow> setTargetTemperature api target 0 t w1
       | (Threw e, w1) \<Rightarrow>
           if r < 5 then setTargetTemperature api target (r + 1) lt w1
           else Some (Inl MaxRetriesExceededError, w1))" for r
    by (subst setTargetTemperature.simps) (simp only: tb)
  show ?thesis unfolding l [of retries] l [of 0] using nt by (cases out) auto
qed

lemma failures_chain:
  assumes des: "parseTargetTemperatureToRange target = Some des"
  shows "failures api des lt n w = Some wn \<Longrightarrow> retries + n \<le> 5 \<Longrightarrow>
         setTargetTemperature api target retries lt w =
         setTargetTemperature api target (retries + n) lt wn"
proof (induction n arbitrary: retries w)
  case 0
  then show ?case by simp
next
  case (Suc n)
  from Suc.prems(1) obtain w1 where
    f: "failed_attempt api des lt w = Some w1" and rest: "failures api des lt n w1 = Some wn"
    by (auto split: option.splits)
  from Suc.prems(2) have r: "retries < 5" by simp
  have "setTargetTemperature api target retries lt w =
        setTargetTemperature api target (retries + 1) lt w1"
    by (rule attempt_fails_retry [OF des f r])
  also have "\<dots> = setTargetTemperature api target (retries + 1 + n) lt wn"
    using rest Suc.prems(2) by (intro Suc.IH) simp_all
  finally show ?case by simp
qed

lemma failures_giveup:
  assumes des: "parseTargetTemperatureToRange target = Some des"
  shows "failures api des lt (Suc n) w = Some wn \<Longrightarrow> retries + n = 5 \<Longrightarrow>
         setTargetTemperature api target retries lt w =
         Some (Inl MaxRetriesExceededError, wn)"
proof (induction n arbitrary: retries w)
  case 0
  from "0.prems"(1) have f: "failed_attempt api des lt w = Some wn"
    by (auto split: option.splits)
  from "0.prems"(2) have r: "\<not> retries < 5" by simp
  show ?case by (rule attempt_fails_giveup [OF des f r])
next
  case (Suc n)
  from Suc.prems(1) obtain w1 where
    f: "failed_attempt api des lt w = Some w1" and
    rest: "failures api des lt (Suc n) w1 = Some wn"
    by (auto split: option.splits)
  from Suc.prems(2) have r: "retries < 5" by simp
  have "setTargetTemperature api target retries lt w =
        setTargetTemperature api target (retries + 1) lt w1"
    by (rule attempt_fails_retry [OF des f r])
  also have "\<dots> = Some (Inl MaxRetriesExceededError, wn)"
    using rest Suc.prems(2) by (intro Suc.IH) simp_all
  finally show ?case .
qed

lemma failures_six:
  assumes des: "parseTargetTemperatureToRange target = Some des"
    and f: "failures api des lt 6 w = Some wn"
  shows "setTargetTemperature api target 0 lt w = Some (Inl MaxRetriesExceededError, wn)"
proof -
  have six: "(6::nat) = Suc 5" by simp
  from f show ?thesis unfolding six by (intro failures_giveup [OF des]) simp_all
qed

lemma entry_reached:
  assumes des: "parseTargetTemperatureToRange target = Some des"
    and lt: "\<not> truthy lt"
    and read: "api ''tela_'' (device w) = (Some data0, d0)"
    and eq: "opt_strict_eq (Some des) (targetTemperature (parseStateParams data0))"
  shows "setTargetTemperature api target retries lt w =
         Some (Inr (Some (parseStateParams data0)),
               w\<lparr>device := d0, requests := requests w @ [''tela_''],
                 lastState := Some (parseStateParams data0)\<rparr>)"
proof -
  from eq obtain c where c: "targetTemperature (parseStateParams data0) = Some c"
    and se: "strict_eq des c"
    by (auto simp: opt_strict_eq_def split: option.splits)
  from se have "c = des" by (cases des; cases c) simp_all
  with parseTargetTemperatureToRange_truthy [OF des] have tr: "truthy (Some c)" by simp
  let ?w1 = "w\<lparr>device := d0, requests := requests w @ [''tela_''],
                lastState := Some (parseStateParams data0)\<rparr>"
  have "try_block api target lt w = try_block api target (Some c) ?w1"
    unfolding try_block_refresh [OF des lt] read using tr by (simp add: c)
  also have "\<dots> = (Return (lastState ?w1), ?w1)"
    by (rule try_block_reached [OF des tr se])
  finally show ?thesis
    by (subst setTargetTemperature.simps) simp
qed

lemma entry_step_succeeds:
  assumes des: "parseTargetTemperatureToRange target = Some des"
    and lt: "\<not> truthy lt"
    and read: "api ''tela_'' (device w) = (Some data0, d0)"
    and tr: "truthy (targetTemperature (parseStateParams data0))"
    and ne: "\<not> opt_strict_eq (Some des) (targetTemperature (parseStateParams data0))"
    and op: "op = (if opt_gt (targetTemperature (parseStateParams data0)) (Some des)
                   then ''dec'' else ''inc'')"
    and ok: "api op d0 = (Some data, d)"
  shows "setTargetTemperature api target retries lt w =
         (if opt_strict_eq (Some des) (targetTemperature (parseStateParams data))
          then Some (Inr (Some (parseStateParams data)),
                 w\<lparr>device := d, requests := requests w @ [''tela_'', op],
                   lastState := Some (parseStateParams data)\<rparr>)
          else setTargetTemperature api target 0 (targetTemperature (parseStateParams data))
                 (w\<lparr>device := d, requests := requests w @ [''tela_'', op],
                    lastState := Some (parseStateParams data)\<rparr>))"
proof -
  from tr obtain c where c: "targetTemperature (parseStateParams data0) = Some c"
    by (cases "targetTemperature (parseStateParams data0)") simp_all
  from tr have trc: "truthy (Some c)" unfolding c .
  from ne have nse: "\<not> strict_eq des c" unfolding c by (simp add: opt_strict_eq_def)
  have op': "op = (if num_gt c des then ''dec'' else ''inc'')"
    unfolding op c by (simp add: opt_gt_def)
  let ?w1 = "w\<lparr>device := d0, requests := requests w @ [''tela_''],
                lastState := Some (parseStateParams data0)\<rparr>"
  have same: "try_block api target lt w = try_block api target (Some c) ?w1"
    unfolding try_block_refresh [OF des lt] read using trc by (simp add: c)
  have ok1: "api (if num_gt c des then ''dec'' else ''inc'') (device ?w1) = (Some data, d)"
    using ok unfolding op' by simp
  show ?thesis
    apply (subst setTargetTemperature.simps)
    unfolding same try_block_step [OF des trc nse] ok1 op'
    apply simp
    done
qed

lemma line_39:
  "targetTemperature (parseStateParams ''10,0,1,0,0,0,0,7,0'') = Some (Fin 39)"
  by (simp add: decode_defs)

lemma line_40_target:
  "targetTemperature (parseStateParams ''10,0,1,0,0,0,0,8,0'') = Some (Fin 40)"
  by (simp add: line_40)

text \<open>
  C2. With \<open>des\<close> the mapped request: an attempt that fails (its forced refresh is not
  answered or brings no target temperature, or its step request is not answered) is
  followed by a new attempt with the same last known temperature and the retry counter
  raised by one while the counter is below 5, and ends the call with
  \<open>MaxRetriesExceededError\<close> otherwise; an attempt that does not fail does not depend on
  the counter, and an answered step either ends the call (target reached) or continues
  with the reported temperature and the counter at 0. Hence 6 failures in a row from
  counter 0 end in that error, and 4 failures in a row followed by an answered step raise
  no error. This holds for a call that carries a last known temperature and for the
  first call, which carries none and starts every attempt with a forced refresh.
\<close>

theorem setTargetTemperature_retries:
  assumes des: "parseTargetTemperatureToRange target = Some des"
  shows
    "(truthy (Some cur) \<and> \<not> strict_eq des cur \<and>
      op = (if num_gt cur des then ''dec'' else ''inc'') \<longrightarrow>
       (api op (device w) = (Some data, d) \<longrightarrow>
          setTargetTemperature api target retries (Some cur) w =
            (if opt_strict_eq (Some des) (targetTemperature (parseStateParams data))
             then Some (Inr (Some (parseStateParams data)),
                    w\<lparr>device := d, requests := requests w @ [op],
                      lastState := Some (parseStateParams data)\<rparr>)
             else setTargetTemperature api target 0 (targetTemperature (parseStateParams data))
                    (w\<lparr>device := d, requests := requests w @ [op],
                       lastState := Some (parseStateParams data)\<rparr>))) \<and>
       (api op (device w) = (None, d) \<and> retries < 5 \<longrightarrow>
          setTargetTemperature api target retries (Some cur) w =
            setTargetTemperature api target (retries + 1) (Some cur)
              (w\<lparr>device := d, requests := requests w @ [op]\<rparr>)) \<and>
       (api op (device w) = (None, d) \<and> \<not> retries < 5 \<longrightarrow>
          setTargetTemperature api target retries (Some cur) w =
            Some (Inl MaxRetriesExceededError,
                  w\<lparr>device := d, requests := requests w @ [op]\<rparr>)) \<and>
       (fails api op 6 (device w) \<longrightarrow>
          setTargetTemperature api target 0 (Some cur) w =
            Some (Inl MaxRetriesExceededError,
                  w\<lparr>device := served api op 6 (device w),
                    requests := requests w @ replicate 6 op\<rparr>)) \<and>
       (fails api op 4 (device w) \<and> api op (served api op 4 (device w)) = (Some data, d) \<longrightarrow>
          setTargetTemperature api target 0 (Some cur) w =
            (if opt_strict_eq (Some des) (targetTemperature (parseStateParams data))
             then Some (Inr (Some (parseStateParams data)),
                    w\<lparr>device := d, requests := requests w @ replicate 5 op,
                      lastState := Some (parseStateParams data)\<rparr>)
             else setTargetTemperature api target 0 (targetTemperature (parseStateParams data))
                    (w\<lparr>device := d, requests := requests w @ replicate 5 op,
                       lastState := Some (parseStateParams data)\<rparr>)))) \<and>
     (failed_attempt api des lt w = Some w1 \<and> retries < 5 \<longrightarrow>
        setTargetTemperature api target retries lt w =
          setTargetTemperature api target (retries + 1) lt w1) \<and>
     (failed_attempt api des lt w = Some w1 \<and> \<not> retries < 5 \<longrightarrow>
        setTargetTemperature api target retries lt w =
          Some (Inl MaxRetriesExceededError, w1)) \<and>
     (failed_attempt api des lt w = None \<longrightarrow>
        setTargetTemperature api target retries lt w =
          setTargetTemperature api target 0 lt w) \<and>
     (failures api des lt n w = Some wn \<and> retries + n \<le> 5 \<longrightarrow>
        setTargetTemperature api target retries lt w =
          setTargetTemperature api target (retries + n) lt wn) \<and>
     (failures api des lt 6 w = Some w6 \<longrightarrow>
        setTargetTemperature api target 0 lt w = Some (Inl MaxRetriesExceededError, w6)) \<and>
     (\<not> truthy lt \<and> api ''tela_'' (device w) = (Some data0, d0) \<and>
      opt_strict_eq (Some des) (targetTemperature (parseStateParams data0)) \<longrightarrow>
        setTargetTemperature api target retries lt w =
          Some (Inr (Some (parseStateParams data0)),
                w\<lparr>device := d0, requests := requests w @ [''tela_''],
                  lastState := Some (parseStateParams data0)\<rparr>)) \<and>
     (\<not> truthy lt \<and> api ''tela_'' (device w) = (Some data0, d0) \<and>
      truthy (targetTemperature (parseStateParams data0)) \<and>
      \<not> opt_strict_eq (Some des) (targetTemperature (parseStateParams data0)) \<and>
      op0 = (if opt_gt (targetTemperature (parseStateParams data0)) (Some des)
             then ''dec'' else ''inc'') \<and>
      api op0 d0 = (Some data, d) \<longrightarrow>
        setTargetTemperature api target retries lt w =
          (if opt_strict_eq (Some des) (targetTemperature (parseStateParams data))
           then Some (Inr (Some (parseStateParams data)),
                  w\<lparr>device := d, requests := requests w @ [''tela_'', op0],
                    lastState := Some (parseStateParams data)\<rparr>)
           else setTargetTemperature api target 0 (targetTemperature (parseStateParams data))
                  (w\<lparr>device := d, requests := requests w @ [''tela_'', op0],
                     lastState := Some (parseStateParams data)\<rparr>))) \<and>
     (failures api des lt 4 w = Some w4 \<and>
      \<not> truthy lt \<and> api ''tela_'' (device w4) = (Some data0, d0) \<and>
      truthy (targetTemperature (parseStateParams data0)) \<and>
      \<not> opt_strict_eq (Some des) (targetTemperature (parseStateParams data0)) \<and>
      op0 = (if opt_gt (targetTemperature (parseStateParams data0)) (Some des)
             then ''dec'' else ''inc'') \<and>
      api op0 d0 = (Some data, d) \<longrightarrow>
        setTargetTemperature api target 0 lt w =
          (if opt_strict_eq (Some des) (targetTemperature (parseStateParams data))
           then Some (Inr (Some (parseStateParams data)),
                  w4\<lparr>device := d, requests := requests w4 @ [''tela_'', op0],
                    lastState := Some (parseStateParams data)\<rparr>)
           else setTargetTemperature api target 0 (targetTemperature (parseStateParams data))
                  (w4\<lparr>device := d, requests := requests w4 @ [''tela_'', op0],
                     lastState := Some (parseStateParams data)\<rparr>)))"
proof (intro conjI impI)
  assume k: "truthy (Some cur) \<and> \<not> strict_eq des cur \<and>
      op = (if num_gt cur des then ''dec'' else ''inc'')"
  then have cur: "truthy (Some cur)" and ne: "\<not> strict_eq des cur"
    and op: "op = (if num_gt cur des then ''dec'' else ''inc'')" by simp_all
  {
    assume "api op (device w) = (Some data, d)"
    then show "setTargetTemperature api target retries (Some cur) w =
            (if opt_strict_eq (Some des) (targetTemperature (parseStateParams data))
             then Some (Inr (Some (parseStateParams data)),
                    w\<lparr>device := d, requests := requests w @ [op],
                      lastState := Some (parseStateParams data)\<rparr>)
             else setTargetTemperature api target 0 (targetTemperature (parseStateParams data))
                    (w\<lparr>device := d, requests := requests w @ [op],
                       lastState := Some (parseStateParams data)\<rparr>))"
      by (rule step_succeeds [where api = api, OF des cur ne op])
  }
  {
    assume "api op (device w) = (None, d) \<and> retries < 5"
    then show "setTargetTemperature api target retries (Some cur) w =
            setTargetTemperature api target (retries + 1) (Some cur)
              (w\<lparr>device := d, requests := requests w @ [op]\<rparr>)"
      using step_fails_retry [where api = api and w = w, OF des cur ne op] by blast
  }
  {
    assume "api op (device w) = (None, d) \<and> \<not> retries < 5"
    then show "setTargetTemperature api target retries (Some cur) w =
            Some (Inl MaxRetriesExceededError,
                  w\<lparr>device := d, requests := requests w @ [op]\<rparr>)"
      using step_fails_giveup [where api = api and w = w, OF des cur ne op] by blast
  }
  {
    assume "fails api op 6 (device w)"
    then show "setTargetTemperature api target 0 (Some cur) w =
            Some (Inl MaxRetriesExceededError,
                  w\<lparr>device := served api op 6 (device w),
                    requests := requests w @ replicate 6 op\<rparr>)"
      by (rule step_fails_six [where api = api, OF des cur ne op])
  }
  {
    assume "fails api op 4 (device w) \<and> api op (served api op 4 (device w)) = (Some data, d)"
    then show "setTargetTemperature api target 0 (Some cur) w =
            (if opt_strict_eq (Some des) (targetTemperature (parseStateParams data))
             then Some (Inr (Some (parseStateParams data)),
                    w\<lparr>device := d, requests := requests w @ replicate 5 op,
                      lastState := Some (parseStateParams data)\<rparr>)
             else setTargetTemperature api target 0 (targetTemperature (parseStateParams data))
                    (w\<lparr>device := d, requests := requests w @ replicate 5 op,
                       lastState := Some (parseStateParams data)\<rparr>))"
      using step_fails_four_then_succeeds [where api = api and w = w, OF des cur ne op]
      by blast
  }
next
  assume "failed_attempt api des lt w = Some w1 \<and> retries < 5"
  then show "setTargetTemperature api target retries lt w =
          setTargetTemperature api target (retries + 1) lt w1"
    using attempt_fails_retry [OF des] by blast
next
  assume "failed_attempt api des lt w = Some w1 \<and> \<not> retries < 5"
  then show "setTargetTemperature api target retries lt w =
          Some (Inl MaxRetriesExceededError, w1)"
    using attempt_fails_giveup [OF des] by blast
next
  assume "failed_attempt api des lt w = None"
  then show "setTargetTemperature api target retries lt w =
          setTargetTemperature api target 0 lt w"
    by (rule attempt_counter_irrelevant [OF des])
next
  assume "failures api des lt n w = Some wn \<and> retries + n \<le> 5"
  then show "setTargetTemperature api target retries lt w =
          setTargetTemperature api target (retries + n) lt wn"
    using failures_chain [OF des] by blast
next
  assume "failures api des lt 6 w = Some w6"
  then show "setTargetTemperature api target 0 lt w = Some (Inl MaxRetriesExceededError, w6)"
    by (rule failures_six [OF des])
next
  assume "\<not> truthy lt \<and> api ''tela_'' (device w) = (Some data0, d0) \<and>
      opt_strict_eq (Some des) (targetTemperature (parseStateParams data0))"
  then show "setTargetTemperature api target retries lt w =
          Some (Inr (Some (parseStateParams data0)),
                w\<lparr>device := d0, requests := requests w @ [''tela_''],
                  lastState := Some (parseStateParams data0)\<rparr>)"
    using entry_reached [where api = api and w = w, OF des] by blast
next
  assume a: "\<not> truthy lt \<and> api ''tela_'' (device w) = (Some data0, d0) \<and>
      truthy (targetTemperature (parseStateParams data0)) \<and>
      \<not> opt_strict_eq (Some des) (targetTemperature (parseStateParams data0)) \<and>
      op0 = (if opt_gt (targetTemperature (parseStateParams data0)) (Some des)
             then ''dec'' else ''inc'') \<and>
      api op0 d0 = (Some data, d)"
  show "setTargetTemperature api target retries lt w =
          (if opt_strict_eq (Some des) (targetTemperature (parseStateParams data))
           then Some (Inr (Some (parseStateParams data)),
                  w\<lparr>device := d, requests := requests w @ [''tela_'', op0],
                    lastState := Some (parseStateParams data)\<rparr>)
           else setTargetTemperature api target 0 (targetTemperature (parseStateParams data))
                  (w\<lparr>device := d, requests := requests w @ [''tela_'', op0],
                     lastState := Some (parseStateParams data)\<rparr>))"
    using a entry_step_succeeds [where api = api and w = w and ?d0.0 = d0
        and ?data0.0 = data0 and op = op0 and data = data and d = d and retries = retries, OF des]
    by blast
next
  assume a: "failures api des lt 4 w = Some w4 \<and>
      \<not> truthy lt \<and> api ''tela_'' (device w4) = (Some data0, d0) \<and>
      truthy (targetTemperature (parseStateParams data0)) \<and>
      \<not> opt_strict_eq (Some des) (targetTemperature (parseStateParams data0)) \<and>
      op0 = (if opt_gt (targetTemperature (parseStateParams data0)) (Some des)
             then ''dec'' else ''inc'') \<and>
      api op0 d0 = (Some data, d)"
  then have "setTargetTemperature api target 0 lt w =
      setTargetTemperature api target (0 + 4) lt w4"
    by (intro failures_chain [OF des]) simp_all
  also have "\<dots> =
          (if opt_strict_eq (Some des) (targetTemperature (parseStateParams data))
           then Some (Inr (Some (parseStateParams data)),
                  w4\<lparr>device := d, requests := requests w4 @ [''tela_'', op0],
                    lastState := Some (parseStateParams data)\<rparr>)
           else setTargetTemperature api target 0 (targetTemperature (parseStateParams data))
                  (w4\<lparr>device := d, requests := requests w4 @ [''tela_'', op0],
                     lastState := Some (parseStateParams data)\<rparr>))"
    using a entry_step_succeeds [where api = api and w = w4 and ?d0.0 = d0
        and ?data0.0 = data0 and op = op0 and data = data and d = d and retries = "0 + 4",
        OF des]
    by blast
  finally show "setTargetTemperature api target 0 lt w =
          (if opt_strict_eq (Some des) (targetTemperature (parseStateParams data))
           then Some (Inr (Some (parseStateParams data)),
                  w4\<lparr>device := d, requests := requests w4 @ [''tela_'', op0],
                    lastState := Some (parseStateParams data)\<rparr>)
           else setTargetTemperature api target 0 (targetTemperature (parseStateParams data))
                  (w4\<lparr>device := d, requests := requests w4 @ [''tela_'', op0],
                     lastState := Some (parseStateParams data)\<rparr>))" .
qed

theorem setTargetTemperature_retries_witness:
  "setTargetTemperature scripted (Fin 40) 0 (Some (Fin 38))
     \<lparr>device = [None, None, None, None, None, None], lastState = None, requests = []\<rparr> =
     Some (Inl MaxRetriesExceededError,
           \<lparr>device = [], lastState = None,
            requests = [''inc'', ''inc'', ''inc'', ''inc'', ''inc'', ''inc'']\<rparr>) \<and>
   setTargetTemperature scripted (Fin 40) 0 (Some (Fin 39))
     \<lparr>device = [None, None, None, None, Some ''10,0,1,0,0,0,0,8,0''], lastState = None,
      requests = []\<rparr> =
     Some (Inr (Some (parseStateParams ''10,0,1,0,0,0,0,8,0'')),
           \<lparr>device = [], lastState = Some (parseStateParams ''10,0,1,0,0,0,0,8,0''),
            requests = [''inc'', ''inc'', ''inc'', ''inc'', ''inc'']\<rparr>) \<and>
   setTargetTemperature scripted (Fin 40) 0 None
     \<lparr>device = [], lastState = None, requests = []\<rparr> =
     Some (Inl MaxRetriesExceededError,
           \<lparr>device = [], lastState = None,
            requests = [''tela_'', ''tela_'', ''tela_'', ''tela_'', ''tela_'', ''tela_'']\<rparr>) \<and>
   setTargetTemperature scripted (Fin 40) 0 None
     \<lparr>device = [None, None, Some ''10,0,1,0,0,0,0,7,0'', None,
                Some ''10,0,1,0,0,0,0,7,0'', None,
                Some ''10,0,1,0,0,0,0,7,0'', Some ''10,0,1,0,0,0,0,8,0''],
      lastState = None, requests = []\<rparr> =
     Some (Inr (Some (parseStateParams ''10,0,1,0,0,0,0,8,0'')),
           \<lparr>device = [], lastState = Some (parseStateParams ''10,0,1,0,0,0,0,8,0''),
            requests = [''tela_'', ''tela_'', ''tela_'', ''inc'', ''tela_'', ''inc'',
                        ''tela_'', ''inc'']\<rparr>)"
proof -
  let ?l39 = "''10,0,1,0,0,0,0,7,0''"
  let ?l40 = "''10,0,1,0,0,0,0,8,0''"
  let ?w6 = "\<lparr>device = [None, None, None, None, None, None :: string option],
              lastState = None, requests = []\<rparr>"
  let ?w4 = "\<lparr>device = [None, None, None, None, Some ?l40],
              lastState = None, requests = []\<rparr>"
  let ?e = "\<lparr>device = [] :: string option list, lastState = None, requests = []\<rparr>"
  let ?e6 = "\<lparr>device = [] :: string option list, lastState = None,
              requests = [''tela_'', ''tela_'', ''tela_'', ''tela_'', ''tela_'', ''tela_'']\<rparr>"
  let ?m = "\<lparr>device = [None, None, Some ?l39, None, Some ?l39, None, Some ?l39, Some ?l40],
             lastState = None, requests = []\<rparr>"
  let ?m4 = "\<lparr>device = [Some ?l39, Some ?l40], lastState = Some (parseStateParams ?l39),
              requests = [''tela_'', ''tela_'', ''tela_'', ''inc'', ''tela_'', ''inc'']\<rparr>"
  have des: "parseTargetTemperatureToRange (Fin 40) = Some (Fin 40)"
    by (simp add: parseTargetTemperatureToRange_Fin)
  have k38: "truthy (Some (Fin 38)) \<and> \<not> strict_eq (Fin 40) (Fin 38) \<and>
             ''inc'' = (if num_gt (Fin 38) (Fin 40) then ''dec'' else ''inc'')"
    by (simp add: num_gt_def)
  have k39: "truthy (Some (Fin 39)) \<and> \<not> strict_eq (Fin 40) (Fin 39) \<and>
             ''inc'' = (if num_gt (Fin 39) (Fin 40) then ''dec'' else ''inc'')"
    by (simp add: num_gt_def)
  have f6: "fails scripted ''inc'' 6 (device ?w6)" by (simp add: numeral_eq_Suc)
  have s6: "served scripted ''inc'' 6 [None, None, None, None, None, None] = []"
    by (simp add: numeral_eq_Suc)
  have f4: "fails scripted ''inc'' 4 (device ?w4) \<and>
            scripted ''inc'' (served scripted ''inc'' 4 (device ?w4)) = (Some ?l40, [])"
    by (simp add: numeral_eq_Suc)
  have r: "replicate 6 ''inc'' = [''inc'', ''inc'', ''inc'', ''inc'', ''inc'', ''inc'']"
    "replicate 5 ''inc'' = [''inc'', ''inc'', ''inc'', ''inc'', ''inc'']"
    by (simp_all add: numeral_eq_Suc)
  note t38 = setTargetTemperature_retries
    [OF des, where cur = "Fin 38" and op = "''inc''" and api = scripted and w = ?w6]
  from t38 [THEN conjunct1, THEN mp, OF k38, THEN conjunct2, THEN conjunct2, THEN conjunct2, THEN conjunct1, THEN mp, OF f6]
  have "setTargetTemperature scripted (Fin 40) 0 (Some (Fin 38)) ?w6 =
          Some (Inl MaxRetriesExceededError,
                ?w6\<lparr>device := served scripted ''inc'' 6 (device ?w6),
                  requests := requests ?w6 @ replicate 6 ''inc''\<rparr>)" .
  then have a: "setTargetTemperature scripted (Fin 40) 0 (Some (Fin 38)) ?w6 =
     Some (Inl MaxRetriesExceededError,
           \<lparr>device = [], lastState = None,
            requests = [''inc'', ''inc'', ''inc'', ''inc'', ''inc'', ''inc'']\<rparr>)"
    by (simp add: s6 r)
  note t39 = setTargetTemperature_retries
    [OF des, where cur = "Fin 39" and op = "''inc''" and api = scripted and w = ?w4
      and data = ?l40 and d = "[]"]
  from t39 [THEN conjunct1, THEN mp, OF k39, THEN conjunct2, THEN conjunct2, THEN conjunct2, THEN conjunct2, THEN mp, OF f4]
  have "setTargetTemperature scripted (Fin 40) 0 (Some (Fin 39)) ?w4 =
          (if opt_strict_eq (Some (Fin 40)) (targetTemperature (parseStateParams ?l40))
           then Some (Inr (Some (parseStateParams ?l40)),
                  ?w4\<lparr>device := [], requests := requests ?w4 @ replicate 5 ''inc'',
                    lastState := Some (parseStateParams ?l40)\<rparr>)
           else setTargetTemperature scripted (Fin 40) 0
                  (targetTemperature (parseStateParams ?l40))
                  (?w4\<lparr>device := [], requests := requests ?w4 @ replicate 5 ''inc'',
                     lastState := Some (parseStateParams ?l40)\<rparr>))" .
  then have b: "setTargetTemperature scripted (Fin 40) 0 (Some (Fin 39)) ?w4 =
     Some (Inr (Some (parseStateParams ?l40)),
           \<lparr>device = [], lastState = Some (parseStateParams ?l40),
            requests = [''inc'', ''inc'', ''inc'', ''inc'', ''inc'']\<rparr>)"
    by (simp add: line_40_target opt_strict_eq_def r)
  have fe: "failures scripted (Fin 40) None 6 ?e = Some ?e6"
    by (simp add: numeral_eq_Suc failed_attempt_def)
  note te = setTargetTemperature_retries
    [OF des, where api = scripted and lt = None and w = ?e and ?w6.0 = ?e6]
  from te [THEN conjunct2, THEN conjunct2, THEN conjunct2, THEN conjunct2, THEN conjunct2, THEN conjunct1, THEN mp, OF fe]
  have c: "setTargetTemperature scripted (Fin 40) 0 None ?e =
          Some (Inl MaxRetriesExceededError, ?e6)" .
  have fm: "failures scripted (Fin 40) None 4 ?m = Some ?m4"
    by (simp add: numeral_eq_Suc failed_attempt_def failed_step_def Let_def line_39
        opt_strict_eq_def opt_gt_def num_gt_def)
  have hm: "failures scripted (Fin 40) None 4 ?m = Some ?m4 \<and>
      \<not> truthy None \<and> scripted ''tela_'' (device ?m4) = (Some ?l39, [Some ?l40]) \<and>
      truthy (targetTemperature (parseStateParams ?l39)) \<and>
      \<not> opt_strict_eq (Some (Fin 40)) (targetTemperature (parseStateParams ?l39)) \<and>
      ''inc'' = (if opt_gt (targetTemperature (parseStateParams ?l39)) (Some (Fin 40))
                 then ''dec'' else ''inc'') \<and>
      scripted ''inc'' [Some ?l40] = (Some ?l40, [])"
    using fm by (simp add: line_39 opt_strict_eq_def opt_gt_def num_gt_def)
  note tm = setTargetTemperature_retries
    [OF des, where api = scripted and lt = None and w = ?m and ?w4.0 = ?m4
      and ?data0.0 = ?l39 and ?d0.0 = "[Some ?l40]" and ?op0.0 = "''inc''"
      and data = ?l40 and d = "[]"]
  from tm [THEN conjunct2, THEN conjunct2, THEN conjunct2, THEN conjunct2, THEN conjunct2, THEN conjunct2, THEN conjunct2, THEN conjunct2, THEN mp, OF hm]
  have "setTargetTemperature scripted (Fin 40) 0 None ?m =
          (if opt_strict_eq (Some (Fin 40)) (targetTemperature (parseStateParams ?l40))
           then Some (Inr (Some (parseStateParams ?l40)),
                  ?m4\<lparr>device := [], requests := requests ?m4 @ [''tela_'', ''inc''],
                    lastState := Some (parseStateParams ?l40)\<rparr>)
           else setTargetTemperature scripted (Fin 40) 0
                  (targetTemperature (parseStateParams ?l40))
                  (?m4\<lparr>device := [], requests := requests ?m4 @ [''tela_'', ''inc''],
                     lastState := Some (parseStateParams ?l40)\<rparr>))" .
  then have d: "setTargetTemperature scripted (Fin 40) 0 None ?m =
     Some (Inr (Some (parseStateParams ?l40)),
           \<lparr>device = [], lastState = Some (parseStateParams ?l40),
            requests = [''tela_'', ''tela_'', ''tela_'', ''inc'', ''tela_'', ''inc'',
                        ''tela_'', ''inc'']\<rparr>)"
    by (simp add: line_40_target opt_strict_eq_def)
  from a b c d show ?thesis by blast
qed

lemma try_block_unknown:
  assumes des: "parseTargetTemperatureToRange target = Some des"
    and last: "\<not> truthy lastTargetTemp"
    and read: "getState api True w = (Inr s, w1)"
    and unknown: "targetTemperature s = None"
  shows "try_block api target lastTargetTemp w = (Threw StateUnavailableError, w1)"
  using parseTargetTemperatureToRange_truthy [OF des] last read unknown
  by (simp add: try_block_def des)

lemma unknown_refresh_chain:
  assumes des: "parseTargetTemperatureToRange target = Some des"
    and last: "\<not> truthy lastTargetTemp"
  shows "unknown_after_refresh api (Suc n) w \<Longrightarrow> retries + n = 5 \<Longrightarrow>
         setTargetTemperature api target retries lastTargetTemp w =
           Some (Inl MaxRetriesExceededError, refreshed api (Suc n) w)"
proof (induction n arbitrary: retries w)
  case 0
  from "0.prems"(1) obtain s w1 where
    read: "getState api True w = (Inr s, w1)" and unknown: "targetTemperature s = None"
    by (auto split: prod.splits sum.splits)
  from "0.prems"(2) have r: "\<not> retries < 5" by simp
  show ?case
    apply (subst setTargetTemperature.simps)
    using r read
    apply (simp add: try_block_unknown [OF des last read unknown])
    done
next
  case (Suc n)
  from Suc.prems(1) obtain s w1 where
    read: "getState api True w = (Inr s, w1)" and unknown: "targetTemperature s = None"
    and rest: "unknown_after_refresh api (Suc n) w1"
    by (auto split: prod.splits sum.splits)
  from Suc.prems(2) have r: "retries < 5" by simp
  have "setTargetTemperature api target retries lastTargetTemp w =
        setTargetTemperature api target (retries + 1) lastTargetTemp w1"
    apply (subst setTargetTemperature.simps)
    using r
    apply (simp add: try_block_unknown [OF des last read unknown])
    done
  also have "\<dots> = Some (Inl MaxRetriesExceededError, refreshed api (Suc n) w1)"
    using rest Suc.prems(2) by (intro Suc.IH) simp_all
  finally show ?case using read by simp
qed

lemma invalid_chain:
  assumes inv: "parseTargetTemperatureToRange target = None"
  shows "retries + n = 5 \<Longrightarrow>
         setTargetTemperature api target retries lastTargetTemp w =
           Some (Inl MaxRetriesExceededError, w)"
proof (induction n arbitrary: retries)
  case 0
  then have r: "\<not> retries < 5" by simp
  show ?case
    apply (subst setTargetTemperature.simps)
    using r
    apply (simp add: try_block_invalid [OF inv])
    done
next
  case (Suc n)
  then have r: "retries < 5" by simp
  have "setTargetTemperature api target retries lastTargetTemp w =
        setTargetTemperature api target (retries + 1) lastTargetTemp w"
    apply (subst setTargetTemperature.simps)
    using r
    apply (simp add: try_block_invalid [OF inv])
    done
  also have "\<dots> = Some (Inl MaxRetriesExceededError, w)"
    using Suc.prems by (intro Suc.IH) simp
  finally show ?case .
qed

lemma invalid_gives_max_retries:
  assumes inv: "parseTargetTemperatureToRange target = None"
  shows "setTargetTemperature api target retries lastTargetTemp w =
           Some (Inl MaxRetriesExceededError, w)"
proof (cases "retries \<le> 5")
  case True
  then have "retries + (5 - retries) = 5" by simp
  then show ?thesis by (rule invalid_chain [OF inv])
next
  case False
  then have r: "\<not> retries < 5" by simp
  show ?thesis
    apply (subst setTargetTemperature.simps)
    using r
    apply (simp add: try_block_invalid [OF inv])
    done
qed

lemma only_max_retries_surfaces:
  assumes run: "setTargetTemperature api target retries lastTargetTemp w = Some y"
  shows "\<forall>e w'. y = (Inl e, w') \<longrightarrow> e = MaxRetriesExceededError"
proof (rule setTargetTemperature.raw_induct
    [where P = "\<lambda>api target retries lastTargetTemp w y.
                  \<forall>e w'. y = (Inl e, w') \<longrightarrow> e = MaxRetriesExceededError",
     OF _ run])
  fix f :: "'a api \<Rightarrow> number \<Rightarrow> nat \<Rightarrow> number option \<Rightarrow> 'a world
              \<Rightarrow> ((error + RinnaiState option) \<times> 'a world) option"
  fix api target retries lastTargetTemp w y
  assume IH: "\<And>api target retries lastTargetTemp w y.
      f api target retries lastTargetTemp w = Some y \<Longrightarrow>
      \<forall>e w'. y = (Inl e, w') \<longrightarrow> e = MaxRetriesExceededError"
  assume body: "(case try_block api target lastTargetTemp w of
        (Return s, w1) \<Rightarrow> Some (Inr s, w1)
      | (Continue currentTargetTemp, w1) \<Rightarrow> f api target 0 currentTargetTemp w1
      | (Threw e, w1) \<Rightarrow>
          if retries < 5 then f api target (retries + 1) lastTargetTemp w1
          else Some (Inl MaxRetriesExceededError, w1)) = Some y"
  show "\<forall>e w'. y = (Inl e, w') \<longrightarrow> e = MaxRetriesExceededError"
  proof (cases "try_block api target lastTargetTemp w")
    case (Pair out w1)
    show ?thesis
    proof (cases out)
      case (Return s)
      with Pair body show ?thesis by auto
    next
      case (Continue t)
      with Pair body have "f api target 0 t w1 = Some y" by simp
      then show ?thesis by (rule IH)
    next
      case (Threw e)
      show ?thesis
      proof (cases "retries < 5")
        case True
        with Pair Threw body have "f api target (retries + 1) lastTargetTemp w1 = Some y"
          by simp
        then show ?thesis by (rule IH)
      next
        case False
        with Pair Threw body show ?thesis by auto
      qed
    qed
  qed
qed

lemma requests_refreshed:
  "requests (refreshed api n w) = requests w @ replicate n ''tela_''"
proof (induction n arbitrary: w)
  case 0
  then show ?case by simp
next
  case (Suc n)
  have "requests (snd (getState api True w)) = requests w @ [''tela_'']"
    by (simp add: getState_fetch split: prod.splits option.splits)
  with Suc show ?case by (simp add: replicate_append_same)
qed


lemma line_unknown:
  "targetTemperature (parseStateParams ''10,0,1,0,0,0,0,0,0'') = None"
  by (simp add: decode_defs)

lemma six_unknown_reads:
  "unknown_after_refresh scripted 6
     \<lparr>device = replicate 6 (Some ''10,0,1,0,0,0,0,0,0''), lastState = None, requests = []\<rparr>"
  by (simp add: numeral_eq_Suc getState_def rinnaiApi_def Let_def line_unknown)

lemma six_refreshed:
  "refreshed scripted 6
     \<lparr>device = replicate 6 (Some ''10,0,1,0,0,0,0,0,0''), lastState = None, requests = []\<rparr> =
   \<lparr>device = [], lastState = Some (parseStateParams ''10,0,1,0,0,0,0,0,0''),
    requests = replicate 6 ''tela_''\<rparr>"
  by (simp add: numeral_eq_Suc getState_def rinnaiApi_def Let_def)

text \<open>
  C3, as the code has it. Both conditions are raised inside the \<open>try\<close> block and so are
  handled by its \<open>catch\<close> like any failure. A request that cannot be mapped ends in
  \<open>MaxRetriesExceededError\<close> without any device request. When the first call finds no
  target temperature after its forced refresh, the refresh is repeated; if six refreshes
  in a row leave it unknown, the call ends in \<open>MaxRetriesExceededError\<close> after six
  \<open>tela_\<close> requests. No other error ever reaches the caller.
\<close>

theorem setTargetTemperature_errors:
  "(setTargetTemperature api target retries lastTargetTemp w = Some (Inl e, w') \<longrightarrow>
      e = MaxRetriesExceededError) \<and>
   (parseTargetTemperatureToRange target = None \<longrightarrow>
      setTargetTemperature api target retries lastTargetTemp w =
        Some (Inl MaxRetriesExceededError, w)) \<and>
   (parseTargetTemperatureToRange target \<noteq> None \<and> \<not> truthy lastTargetTemp \<and>
    unknown_after_refresh api 6 w \<longrightarrow>
      setTargetTemperature api target 0 lastTargetTemp w =
        Some (Inl MaxRetriesExceededError, refreshed api 6 w) \<and>
      requests (refreshed api 6 w) = requests w @ replicate 6 ''tela_'')"
proof (intro conjI impI)
  assume "setTargetTemperature api target retries lastTargetTemp w = Some (Inl e, w')"
  from only_max_retries_surfaces [OF this] show "e = MaxRetriesExceededError" by simp
next
  assume "parseTargetTemperatureToRange target = None"
  then show "setTargetTemperature api target retries lastTargetTemp w =
        Some (Inl MaxRetriesExceededError, w)"
    by (rule invalid_gives_max_retries)
next
  assume a: "parseTargetTemperatureToRange target \<noteq> None \<and> \<not> truthy lastTargetTemp \<and>
    unknown_after_refresh api 6 w"
  then obtain des where des: "parseTargetTemperatureToRange target = Some des" by auto
  have six: "(6::nat) = Suc 5" by simp
  from a show "setTargetTemperature api target 0 lastTargetTemp w =
        Some (Inl MaxRetriesExceededError, refreshed api 6 w)"
    unfolding six by (intro unknown_refresh_chain [OF des]) simp_all
next
  show "requests (refreshed api 6 w) = requests w @ replicate 6 ''tela_''"
    by (rule requests_refreshed)
qed

theorem setTargetTemperature_errors_witness:
  "setTargetTemperature scripted (Fin 40) 0 None
     \<lparr>device = replicate 6 (Some ''10,0,1,0,0,0,0,0,0''), lastState = None, requests = []\<rparr> =
     Some (Inl MaxRetriesExceededError,
           \<lparr>device = [], lastState = Some (parseStateParams ''10,0,1,0,0,0,0,0,0''),
            requests = replicate 6 ''tela_''\<rparr>) \<and>
   setTargetTemperature scripted NaN 3 (Some (Fin 38))
     \<lparr>device = [], lastState = None, requests = []\<rparr> =
     Some (Inl MaxRetriesExceededError, \<lparr>device = [], lastState = None, requests = []\<rparr>)"
proof -
  let ?w = "\<lparr>device = replicate 6 (Some ''10,0,1,0,0,0,0,0,0''), lastState = None,
             requests = []\<rparr>"
  let ?v = "\<lparr>device = [] :: string option list, lastState = None, requests = []\<rparr>"
  have h: "parseTargetTemperatureToRange (Fin 40) \<noteq> None \<and> \<not> truthy None \<and>
           unknown_after_refresh scripted 6 ?w"
    by (simp add: parseTargetTemperatureToRange_Fin six_unknown_reads)
  from setTargetTemperature_errors [of scripted "Fin 40" _ None ?w] h
  have "setTargetTemperature scripted (Fin 40) 0 None ?w =
          Some (Inl MaxRetriesExceededError, refreshed scripted 6 ?w)"
    by blast
  then have a: "setTargetTemperature scripted (Fin 40) 0 None ?w =
     Some (Inl MaxRetriesExceededError,
           \<lparr>device = [], lastState = Some (parseStateParams ''10,0,1,0,0,0,0,0,0''),
            requests = replicate 6 ''tela_''\<rparr>)"
    by (simp only: six_refreshed)
  from setTargetTemperature_errors [of scripted NaN 3 "Some (Fin 38)" ?v]
    parseTargetTemperatureToRange_NaN
  have b: "setTargetTemperature scripted NaN 3 (Some (Fin 38)) ?v =
          Some (Inl MaxRetriesExceededError, ?v)"
    by blast
  from a b show ?thesis by blast
qed

text \<open>
  The claim C3 as stated fails. A device whose state line carries the index 0 leaves the
  target temperature unknown after every forced refresh, and the caller receives
  \<open>MaxRetriesExceededError\<close>, not \<open>StateUnavailableError\<close>; a request of NaN cannot be
  mapped, and the caller receives \<open>MaxRetriesExceededError\<close>, not
  \<open>InvalidTemperatureError\<close>.
\<close>

theorem setTargetTemperature_errors_counterexample:
  "targetTemperature (parseStateParams ''10,0,1,0,0,0,0,0,0'') = None \<and>
   setTargetTemperature scripted (Fin 40) 0 None
     \<lparr>device = replicate 6 (Some ''10,0,1,0,0,0,0,0,0''), lastState = None, requests = []\<rparr> =
     Some (Inl MaxRetriesExceededError,
           \<lparr>device = [], lastState = Some (parseStateParams ''10,0,1,0,0,0,0,0,0''),
            requests = replicate 6 ''tela_''\<rparr>) \<and>
   parseTargetTemperatureToRange NaN = None \<and>
   setTargetTemperature scripted NaN 0 None
     \<lparr>device = [], lastState = None, requests = []\<rparr> =
     Some (Inl MaxRetriesExceededError, \<lparr>device = [], lastState = None, requests = []\<rparr>) \<and>
   MaxRetriesExceededError \<noteq> StateUnavailableError \<and>
   MaxRetriesExceededError \<noteq> InvalidTemperatureError"
proof -
  let ?w = "\<lparr>device = replicate 6 (Some ''10,0,1,0,0,0,0,0,0''), lastState = None,
             requests = []\<rparr>"
  have des: "parseTargetTemperatureToRange (Fin 40) = Some (Fin 40)"
    by (simp add: parseTargetTemperatureToRange_Fin)
  have last: "\<not> truthy None" by simp
  have six: "(6::nat) = Suc 5" by simp
  have "setTargetTemperature scripted (Fin 40) 0 None ?w =
          Some (Inl MaxRetriesExceededError, refreshed scripted (Suc 5) ?w)"
    using six_unknown_reads unfolding six
    by (intro unknown_refresh_chain [OF des last]) simp_all
  then have "setTargetTemperature scripted (Fin 40) 0 None ?w =
     Some (Inl MaxRetriesExceededError,
           \<lparr>device = [], lastState = Some (parseStateParams ''10,0,1,0,0,0,0,0,0''),
            requests = replicate 6 ''tela_''\<rparr>)"
    using six_refreshed unfolding six by simp
  then show ?thesis
    by (simp add: line_unknown parseTargetTemperatureToRange_NaN
        invalid_gives_max_retries [OF parseTargetTemperatureToRange_NaN])
qed

lemma array_get_mem: "array_get xs k = Some v \<Longrightarrow> v \<in> set xs"
  by (auto simp: array_get_def nth_opt_def split: number.splits if_splits)

lemma parseRinnaiTemperature_range:
  "parseRinnaiTemperature n = Some (Fin (of_int t)) \<Longrightarrow> 35 \<le> t \<and> t \<le> 45"
proof -
  assume a: "parseRinnaiTemperature n = Some (Fin (of_int t))"
  then have "Fin (of_int t) \<in> set RINNAI_STATE_TEMPERATURES"
    unfolding parseRinnaiTemperature_def Let_def by (rule array_get_mem)
  then show ?thesis by (auto simp: RINNAI_STATE_TEMPERATURES_def)
qed

lemma unit_step_device_range:
  assumes dev: "unit_step_device api temp"
  shows "35 \<le> temp d \<and> temp d \<le> 45"
proof -
  from dev obtain line where
    "targetTemperature (parseStateParams line) = Some (Fin (of_int (temp d)))"
    unfolding unit_step_device_def by blast
  then have "parseRinnaiTemperature (parseInt (nth_opt (split CHR '','' line) 7)) =
      Some (Fin (of_int (temp d)))"
    by (simp add: parseStateParams_def Let_def)
  then show ?thesis by (rule parseRinnaiTemperature_range)
qed

lemma parseTargetTemperatureToRange_int:
  "target \<noteq> NaN \<Longrightarrow>
   \<exists>k. 35 \<le> k \<and> k \<le> 45 \<and> parseTargetTemperatureToRange target = Some (Fin (of_int k))"
proof (cases target)
  case (Fin r)
  let ?k = "if r < 36 then 35 else if r < 37 then 36 else if r < 38 then 37
            else if r < 39 then 38 else if r < 40 then 39 else if r < 41 then 40
            else if r < 42 then 41 else if r < 43 then 42 else if r < 44 then 43
            else if r < 45 then 44 else (45::int)"
  have "35 \<le> ?k \<and> ?k \<le> 45 \<and> parseTargetTemperatureToRange target = Some (Fin (of_int ?k))"
    unfolding Fin parseTargetTemperatureToRange_Fin by simp
  then show ?thesis by blast
next
  case PosInf
  have "35 \<le> (45::int) \<and> (45::int) \<le> 45 \<and>
        parseTargetTemperatureToRange target = Some (Fin (of_int 45))"
    unfolding PosInf parseTargetTemperatureToRange_PosInf by simp
  then show ?thesis by blast
next
  case NegInf
  have "35 \<le> (35::int) \<and> (35::int) \<le> 45 \<and>
        parseTargetTemperatureToRange target = Some (Fin (of_int 35))"
    unfolding NegInf parseTargetTemperatureToRange_NegInf by simp
  then show ?thesis by blast
next
  case NaN
  assume "target \<noteq> NaN"
  with NaN show ?thesis by simp
qed

text \<open>One step on a unit-step device, in the direction of the desired temperature.\<close>

lemma unit_step_answer:
  assumes dev: "unit_step_device api temp"
    and k: "35 \<le> k" "k \<le> 45"
    and c: "temp d = c" "c \<noteq> k"
  shows "\<exists>line d'.
           api (if k < c then ''dec'' else ''inc'') d = (Some line, d') \<and>
           temp d' = (if k < c then c - 1 else c + 1) \<and>
           targetTemperature (parseStateParams line) =
             Some (Fin (of_int (if k < c then c - 1 else c + 1)))"
proof (cases "k < c")
  case True
  with k c have "35 < temp d" by simp
  with dev obtain line d' where a: "api ''dec'' d = (Some line, d')" "temp d' = temp d - 1"
    "targetTemperature (parseStateParams line) = Some (Fin (of_int (temp d - 1)))"
    unfolding unit_step_device_def by blast
  show ?thesis using a unfolding c(1) by (simp only: True if_True) blast
next
  case False
  with k c have "temp d < 45" by simp
  with dev obtain line d' where a: "api ''inc'' d = (Some line, d')" "temp d' = temp d + 1"
    "targetTemperature (parseStateParams line) = Some (Fin (of_int (temp d + 1)))"
    unfolding unit_step_device_def by blast
  show ?thesis using a unfolding c(1) by (simp only: False if_False) blast
qed

lemma converge_steps:
  assumes dev: "unit_step_device api temp"
    and des: "parseTargetTemperatureToRange target = Some (Fin (of_int k))"
    and k: "35 \<le> k" "k \<le> 45"
  shows "temp (device w) = c \<Longrightarrow> lastState w = Some s0 \<Longrightarrow>
         targetTemperature s0 = Some (Fin (of_int c)) \<Longrightarrow> nat \<bar>k - c\<bar> = n \<Longrightarrow>
         \<exists>s w'. setTargetTemperature api target 0 (Some (Fin (of_int c))) w =
                  Some (Inr (Some s), w') \<and>
                targetTemperature s = Some (Fin (of_int k)) \<and> lastState w' = Some s \<and>
                requests w' =
                  requests w @ replicate n (if k < c then ''dec'' else ''inc'')"
proof (induction n arbitrary: w c s0)
  case 0
  then have ck: "c = k" by simp
  have "truthy (Some (Fin (of_int k)))" using k by simp
  moreover have "strict_eq (Fin (of_int k)) (Fin (of_int k))" by simp
  ultimately have "try_block api target (Some (Fin (of_int k))) w = (Return (lastState w), w)"
    by (rule try_block_reached [OF des])
  then have "setTargetTemperature api target 0 (Some (Fin (of_int c))) w =
      Some (Inr (Some s0), w)"
    unfolding ck using "0.prems"(2) by (subst setTargetTemperature.simps) simp
  with "0.prems" ck show ?case by simp
next
  case (Suc n)
  from Suc.prems(4) have ne: "c \<noteq> k" by auto
  from unit_step_device_range [OF dev, of "device w"] Suc.prems(1)
  have cr: "35 \<le> c" "c \<le> 45" by simp_all
  let ?op = "if k < c then ''dec'' else ''inc''"
  let ?c' = "if k < c then c - 1 else c + 1"
  from unit_step_answer [OF dev k Suc.prems(1) ne] obtain line d' where
    ans: "api ?op (device w) = (Some line, d')" and
    t': "temp d' = ?c'" and
    tgt: "targetTemperature (parseStateParams line) = Some (Fin (of_int ?c'))"
    by blast
  let ?w3 = "w\<lparr>device := d', requests := requests w @ [?op],
               lastState := Some (parseStateParams line)\<rparr>"
  have tr: "truthy (Some (Fin (of_int c)))" using cr by simp
  have nse: "\<not> strict_eq (Fin (of_int k)) (Fin (of_int c))" using ne by simp
  have op: "?op = (if num_gt (Fin (of_int c)) (Fin (of_int k)) then ''dec'' else ''inc'')"
    by (simp add: num_gt_def)
  note step = step_succeeds [where api = api and w = w and retries = 0,
      OF des tr nse op ans]
  have dist: "nat \<bar>k - ?c'\<bar> = n" using Suc.prems(4) ne by (auto split: if_splits)
  show ?case
  proof (cases "?c' = k")
    case True
    then have "opt_strict_eq (Some (Fin (of_int k)))
        (targetTemperature (parseStateParams line))"
      unfolding tgt by (simp add: opt_strict_eq_def)
    with step have "setTargetTemperature api target 0 (Some (Fin (of_int c))) w =
        Some (Inr (Some (parseStateParams line)), ?w3)" by simp
    moreover from True dist have "n = 0" by simp
    moreover from tgt True
    have "targetTemperature (parseStateParams line) = Some (Fin (of_int k))" by simp
    ultimately show ?thesis by simp
  next
    case False
    then have "\<not> opt_strict_eq (Some (Fin (of_int k)))
        (targetTemperature (parseStateParams line))"
      unfolding tgt by (simp add: opt_strict_eq_def)
    with step have eq: "setTargetTemperature api target 0 (Some (Fin (of_int c))) w =
        setTargetTemperature api target 0 (Some (Fin (of_int ?c'))) ?w3"
      unfolding tgt by simp
    have "\<exists>s w'. setTargetTemperature api target 0 (Some (Fin (of_int ?c'))) ?w3 =
                  Some (Inr (Some s), w') \<and>
                targetTemperature s = Some (Fin (of_int k)) \<and> lastState w' = Some s \<and>
                requests w' =
                  requests ?w3 @ replicate n (if k < ?c' then ''dec'' else ''inc'')"
      using t' tgt dist by (intro Suc.IH [where ?s0.0 = "parseStateParams line"]) simp_all
    then obtain s w' where
      run: "setTargetTemperature api target 0 (Some (Fin (of_int ?c'))) ?w3 =
              Some (Inr (Some s), w')" and
      res: "targetTemperature s = Some (Fin (of_int k))" "lastState w' = Some s" and
      reqs: "requests w' =
               requests ?w3 @ replicate n (if k < ?c' then ''dec'' else ''inc'')"
      by blast
    have same: "(if k < ?c' then ''dec'' else ''inc'') = ?op"
      using False ne by (auto split: if_splits)
    from reqs have "requests w' = requests w @ replicate (Suc n) ?op"
      unfolding same by (simp add: replicate_app_Cons_same)
    with eq run res show ?thesis by simp
  qed
qed


lemma try_block_no_throw:
  assumes dev: "unit_step_device api temp"
    and des: "parseTargetTemperatureToRange target = Some (Fin (of_int k))"
    and k: "35 \<le> k" "k \<le> 45"
    and c: "temp (device w) = c"
  shows "try_block api target (Some (Fin (of_int c))) w \<noteq> (Threw e, v)"
proof (cases "c = k")
  case True
  have "truthy (Some (Fin (of_int k)))" using k by simp
  moreover have "strict_eq (Fin (of_int k)) (Fin (of_int k))" by simp
  ultimately have "try_block api target (Some (Fin (of_int k))) w = (Return (lastState w), w)"
    by (rule try_block_reached [OF des])
  with True show ?thesis by simp
next
  case False
  from unit_step_device_range [OF dev, of "device w"] c
  have tr: "truthy (Some (Fin (of_int c)))" by simp
  have nse: "\<not> strict_eq (Fin (of_int k)) (Fin (of_int c))" using False by simp
  from unit_step_answer [OF dev k c False] obtain line d' where
    ans: "api (if k < c then ''dec'' else ''inc'') (device w) = (Some line, d')" by blast
  have op: "(if num_gt (Fin (of_int c)) (Fin (of_int k)) then ''dec'' else ''inc'') =
            (if k < c then ''dec'' else ''inc'')"
    by (simp add: num_gt_def)
  show ?thesis
    unfolding try_block_step [OF des tr nse] op ans by simp
qed

lemma same_attempt:
  assumes same: "try_block api target t0 w = try_block api target t1 w1"
    and no_throw: "\<And>e v. try_block api target t1 w1 \<noteq> (Threw e, v)"
  shows "setTargetTemperature api target r t0 w =
         setTargetTemperature api target r t1 w1"
proof -
  obtain out v where tb: "try_block api target t1 w1 = (out, v)" by force
  with no_throw have nt: "out \<noteq> Threw e" for e by auto
  have l: "setTargetTemperature api target r t0 w =
      (case (out, v) of
         (Return s, w1) \<Rightarrow> Some (Inr s, w1)
       | (Continue t, w1) \<Rightarrow> setTargetTemperature api target 0 t w1
       | (Threw e, w1) \<Rightarrow>
           if r < 5 then setTargetTemperature api target (r + 1) t0 w1
           else Some (Inl MaxRetriesExceededError, w1))"
    by (subst setTargetTemperature.simps) (simp only: same tb)
  have r: "setTargetTemperature api target r t1 w1 =
      (case (out, v) of
         (Return s, w1) \<Rightarrow> Some (Inr s, w1)
       | (Continue t, w1) \<Rightarrow> setTargetTemperature api target 0 t w1
       | (Threw e, w1) \<Rightarrow>
           if r < 5 then setTargetTemperature api target (r + 1) t1 w1
           else Some (Inl MaxRetriesExceededError, w1))"
    by (subst setTargetTemperature.simps) (simp only: tb)
  show ?thesis unfolding l r using nt by (cases out) auto
qed

text \<open>
  C1. On a unit-step device, a first call with a request other than NaN returns, and
  returns a state whose target temperature is the mapped request. It issues one state
  read and then as many step requests as the mapped request is away from the device's
  temperature, all of them \<open>dec\<close> when the device is above the mapped request and all
  \<open>inc\<close> otherwise; that is at most 10 steps, and exactly three \<open>inc\<close> when the mapped
  request is three above the device's temperature.
\<close>

theorem setTargetTemperature_converges:
  assumes dev: "unit_step_device api temp"
    and target: "target \<noteq> NaN"
  shows "\<exists>k s w'.
           parseTargetTemperatureToRange target = Some (Fin (of_int k)) \<and>
           setTargetTemperature api target 0 None w = Some (Inr (Some s), w') \<and>
           targetTemperature s = parseTargetTemperatureToRange target \<and>
           lastState w' = Some s \<and>
           requests w' =
             requests w @ ''tela_'' #
               replicate (nat \<bar>k - temp (device w)\<bar>)
                 (if k < temp (device w) then ''dec'' else ''inc'') \<and>
           nat \<bar>k - temp (device w)\<bar> \<le> length AVAILABLE_TEMPERATURES - 1 \<and>
           length AVAILABLE_TEMPERATURES - 1 = 10 \<and>
           (k = temp (device w) + 3 \<longrightarrow>
              requests w' = requests w @ [''tela_'', ''inc'', ''inc'', ''inc''])"
proof -
  from parseTargetTemperatureToRange_int [OF target] obtain k where
    k: "35 \<le> k" "k \<le> 45" and
    des: "parseTargetTemperatureToRange target = Some (Fin (of_int k))" by blast
  define c where "c = temp (device w)"
  from unit_step_device_range [OF dev, of "device w"] have cr: "35 \<le> c" "c \<le> 45"
    unfolding c_def by simp_all
  from dev obtain line d' where
    read: "api ''tela_'' (device w) = (Some line, d')" and
    t': "temp d' = c" and
    tgt: "targetTemperature (parseStateParams line) = Some (Fin (of_int c))"
    unfolding unit_step_device_def c_def by blast
  let ?w1 = "w\<lparr>device := d', requests := requests w @ [''tela_''],
               lastState := Some (parseStateParams line)\<rparr>"
  have tr: "truthy (Some (Fin (of_int c)))" using cr by simp
  have "\<not> truthy None" by simp
  from try_block_refresh [OF des this, of api w]
  have same: "try_block api target None w =
      try_block api target (Some (Fin (of_int c))) ?w1"
    unfolding read using tr by (simp add: tgt)
  have c1: "temp (device ?w1) = c" using t' by simp
  have "setTargetTemperature api target 0 None w =
        setTargetTemperature api target 0 (Some (Fin (of_int c))) ?w1"
    using same try_block_no_throw [OF dev des k c1] by (rule same_attempt)
  moreover
  have "\<exists>s w'. setTargetTemperature api target 0 (Some (Fin (of_int c))) ?w1 =
                  Some (Inr (Some s), w') \<and>
                targetTemperature s = Some (Fin (of_int k)) \<and> lastState w' = Some s \<and>
                requests w' =
                  requests ?w1 @ replicate (nat \<bar>k - c\<bar>) (if k < c then ''dec'' else ''inc'')"
    using c1 tgt
    by (intro converge_steps [OF dev des k, where ?s0.0 = "parseStateParams line"])
      simp_all
  ultimately obtain s w' where
    run: "setTargetTemperature api target 0 None w = Some (Inr (Some s), w')" and
    res: "targetTemperature s = Some (Fin (of_int k))" "lastState w' = Some s" and
    reqs: "requests w' =
      requests w @ ''tela_'' # replicate (nat \<bar>k - c\<bar>) (if k < c then ''dec'' else ''inc'')"
    by auto
  have bound: "nat \<bar>k - c\<bar> \<le> length AVAILABLE_TEMPERATURES - 1"
    "length AVAILABLE_TEMPERATURES - 1 = 10"
    using k cr by (simp_all add: AVAILABLE_TEMPERATURES_def)
  have three: "k = c + 3 \<longrightarrow> requests w' = requests w @ [''tela_'', ''inc'', ''inc'', ''inc'']"
    using reqs by (simp add: numeral_eq_Suc)
  from des run res reqs bound three show ?thesis
    unfolding c_def by auto
qed


lemma heater_temp_range: "35 \<le> heater_temp d \<and> heater_temp d \<le> 45"
  by (simp add: heater_temp_def)

lemma heater_temp_id: "35 \<le> t \<Longrightarrow> t \<le> 45 \<Longrightarrow> heater_temp t = t"
  by (simp add: heater_temp_def)

lemma heater_line_decodes:
  assumes "35 \<le> t" "t \<le> 45"
  shows "targetTemperature (parseStateParams (heater_line t)) = Some (Fin (of_int t))"
proof -
  from assms have "t = 35 \<or> t = 36 \<or> t = 37 \<or> t = 38 \<or> t = 39 \<or> t = 40 \<or>
      t = 41 \<or> t = 42 \<or> t = 43 \<or> t = 44 \<or> t = 45"
    by presburger
  then show ?thesis
    by (elim disjE) (simp_all add: heater_line_def index_text_def decode_defs)
qed

lemma heater_unit_step: "unit_step_device heater heater_temp"
  unfolding unit_step_device_def
proof (intro conjI allI impI)
  fix d
  show "\<exists>line d'. heater ''tela_'' d = (Some line, d') \<and> heater_temp d' = heater_temp d \<and>
          targetTemperature (parseStateParams line) = Some (Fin (of_int (heater_temp d)))"
    using heater_temp_range [of d]
    by (simp add: heater_def Let_def heater_temp_id heater_line_decodes)
next
  fix d
  assume "heater_temp d < 45"
  with heater_temp_range [of d]
  have r: "35 \<le> heater_temp d + 1" "heater_temp d + 1 \<le> 45" by simp_all
  show "\<exists>line d'. heater ''inc'' d = (Some line, d') \<and> heater_temp d' = heater_temp d + 1 \<and>
          targetTemperature (parseStateParams line) =
            Some (Fin (of_int (heater_temp d + 1)))"
    using r by (simp add: heater_def Let_def heater_temp_id heater_line_decodes del: of_int_add)
next
  fix d
  assume "35 < heater_temp d"
  with heater_temp_range [of d]
  have r: "35 \<le> heater_temp d - 1" "heater_temp d - 1 \<le> 45" by simp_all
  show "\<exists>line d'. heater ''dec'' d = (Some line, d') \<and> heater_temp d' = heater_temp d - 1 \<and>
          targetTemperature (parseStateParams line) =
            Some (Fin (of_int (heater_temp d - 1)))"
    using r by (simp add: heater_def Let_def heater_temp_id heater_line_decodes del: of_int_diff)
qed

theorem setTargetTemperature_converges_witness:
  "unit_step_device heater heater_temp \<and> Fin 40 \<noteq> NaN \<and>
   (\<exists>s w'. setTargetTemperature heater (Fin 40) 0 None
              \<lparr>device = 37, lastState = None, requests = []\<rparr> = Some (Inr (Some s), w') \<and>
           targetTemperature s = Some (Fin 40) \<and>
           requests w' = [''tela_'', ''inc'', ''inc'', ''inc'']) \<and>
   (\<exists>s w'. setTargetTemperature heater (Fin (81 / 2)) 0 None
              \<lparr>device = 42, lastState = None, requests = []\<rparr> = Some (Inr (Some s), w') \<and>
           targetTemperature s = Some (Fin 40) \<and>
           requests w' = [''tela_'', ''dec'', ''dec''])"
proof -
  let ?w = "\<lparr>device = 37 :: int, lastState = None, requests = []\<rparr>"
  let ?v = "\<lparr>device = 42 :: int, lastState = None, requests = []\<rparr>"
  have m: "parseTargetTemperatureToRange (Fin 40) = Some (Fin 40)"
    "parseTargetTemperatureToRange (Fin (81 / 2)) = Some (Fin 40)"
    by (simp_all add: parseTargetTemperatureToRange_Fin)
  have t: "temp_w = heater_temp (device ?w) \<Longrightarrow> temp_w = 37"
    "temp_v = heater_temp (device ?v) \<Longrightarrow> temp_v = 42" for temp_w temp_v
    by (simp_all add: heater_temp_def)
  have n: "Fin 40 \<noteq> NaN" "Fin (81 / 2) \<noteq> NaN" by simp_all
  from setTargetTemperature_converges [OF heater_unit_step n(1), of ?w]
  obtain k s w' where
    a: "parseTargetTemperatureToRange (Fin 40) = Some (Fin (of_int k))"
    "setTargetTemperature heater (Fin 40) 0 None ?w = Some (Inr (Some s), w')"
    "targetTemperature s = parseTargetTemperatureToRange (Fin 40)"
    "k = heater_temp (device ?w) + 3 \<longrightarrow>
       requests w' = requests ?w @ [''tela_'', ''inc'', ''inc'', ''inc'']"
    by blast
  from a(1) have "k = 40" unfolding m by simp
  with a have 1: "\<exists>s w'. setTargetTemperature heater (Fin 40) 0 None ?w =
                    Some (Inr (Some s), w') \<and>
           targetTemperature s = Some (Fin 40) \<and>
           requests w' = [''tela_'', ''inc'', ''inc'', ''inc'']"
    by (simp add: m heater_temp_def)
  from setTargetTemperature_converges [OF heater_unit_step n(2), of ?v]
  obtain k s w' where
    b: "parseTargetTemperatureToRange (Fin (81 / 2)) = Some (Fin (of_int k))"
    "setTargetTemperature heater (Fin (81 / 2)) 0 None ?v = Some (Inr (Some s), w')"
    "targetTemperature s = parseTargetTemperatureToRange (Fin (81 / 2))"
    "requests w' =
       requests ?v @ ''tela_'' #
         replicate (nat \<bar>k - heater_temp (device ?v)\<bar>)
           (if k < heater_temp (device ?v) then ''dec'' else ''inc'')"
    by blast
  from b(1) have "k = 40" unfolding m by simp
  with b have 2: "\<exists>s w'. setTargetTemperature heater (Fin (81 / 2)) 0 None ?v =
                    Some (Inr (Some s), w') \<and>
           targetTemperature s = Some (Fin 40) \<and>
           requests w' = [''tela_'', ''dec'', ''dec'']"
    by (simp add: m heater_temp_def numeral_eq_Suc)
  from heater_unit_step n(1) 1 2 show ?thesis by blast
qed

end
